theory Spec2Isabelle
  imports Complex_Main "HOL-Library.Multiset"
begin

section \<open>Text and cell values\<close>

text \<open>
  A Python \<^verbatim>\<open>str\<close> is a sequence of Unicode code points; the sheets and the keyword
  tables of the program hold Persian text, so a text is a list of code points
  (\<open>''-123''\<close> is \<open>[45, 49, 50, 51]\<close>). The ASCII literals of the code that are never
  mixed with sheet text (\<^verbatim>\<open>"cash"\<close>, \<^verbatim>\<open>"commission"\<close>) stay HOL strings.
\<close>

type_synonym ustring = "nat list"

text \<open>
  A Python \<^verbatim>\<open>float\<close>: not-a-number, an infinity, or a finite value. Every finite
  double is a rational number, and \<^verbatim>\<open>round\<close> only depends on that number.
\<close>

datatype pyfloat = NaN | PosInf | NegInf | Finite rat

text \<open>
  What a worksheet cell (or any caller of \<^verbatim>\<open>normalize_number\<close>) holds:
  \<^verbatim>\<open>None\<close>, a \<^verbatim>\<open>bool\<close>, an \<^verbatim>\<open>int\<close>, a \<^verbatim>\<open>float\<close> or a \<^verbatim>\<open>str\<close>.
  The program only tests a cell against \<^verbatim>\<open>None\<close>, takes its \<^verbatim>\<open>str\<close> or
  normalizes it, so a cell of any other type (a date, a time) acts as the text that
  \<^verbatim>\<open>str\<close> gives for it.
\<close>

datatype cell = CNone | CBool bool | CInt int | CFloat pyfloat | CStr ustring

datatype error =
    OverflowError  \<comment> \<open>\<^verbatim>\<open>round(float("inf"))\<close>: cannot convert float infinity to integer\<close>
  | LoadError ustring  \<comment> \<open>\<^verbatim>\<open>load_workbook\<close> could not open or read the file\<close>
  | StoreError ustring  \<comment> \<open>the record store refused a write\<close>

subsection \<open>The string operations of Python that the code uses\<close>

text \<open>\<^verbatim>\<open>str.isspace\<close> for one code point (Unicode 14 table).\<close>

definition isspace :: "nat \<Rightarrow> bool" where
  "isspace c \<longleftrightarrow>
     (9 \<le> c \<and> c \<le> 13) \<or> (28 \<le> c \<and> c \<le> 32) \<or> c = 133 \<or> c = 160 \<or> c = 5760 \<or>
     (8192 \<le> c \<and> c \<le> 8202) \<or> c = 8232 \<or> c = 8233 \<or> c = 8239 \<or> c = 8287 \<or>
     c = 12288"

text \<open>\<^verbatim>\<open>s.strip()\<close>\<close>

definition strip :: "ustring \<Rightarrow> ustring" where
  "strip s = rev (dropWhile isspace (rev (dropWhile isspace s)))"

text \<open>\<^verbatim>\<open>s.replace(ch, "")\<close> for a one-character \<open>ch\<close>\<close>

definition remove_char :: "nat \<Rightarrow> ustring \<Rightarrow> ustring" where
  "remove_char ch s = filter (\<lambda>c. c \<noteq> ch) s"

text \<open>
  The zero digits of the Unicode category Nd (Unicode 14): each is followed by its
  digits one to nine. The regular expression class \<^verbatim>\<open>\d\<close> and \<^verbatim>\<open>int\<close> both use
  this table.
\<close>

definition nd_zeros :: "nat list" where
  "nd_zeros = [48, 1632, 1776, 1984, 2406, 2534, 2662, 2790, 2918, 3046, 3174, 3302,
     3430, 3558, 3664, 3792, 3872, 4160, 4240, 6112, 6160, 6470, 6608, 6784, 6800, 6992,
     7088, 7232, 7248, 42528, 43216, 43264, 43472, 43504, 43600, 44016, 65296, 66720,
     68912, 69734, 69872, 69942, 70096, 70384, 70736, 70864, 71248, 71360, 71472, 71904,
     72016, 72784, 73040, 73120, 92768, 92864, 93008, 120782, 120792, 120802, 120812,
     120822, 123200, 123632, 125264, 130032]"

definition digit_value :: "nat \<Rightarrow> nat option" where
  "digit_value c =
     (case find (\<lambda>z. z \<le> c \<and> c < z + 10) nd_zeros of
        None \<Rightarrow> None
      | Some z \<Rightarrow> Some (c - z))"

definition is_digit :: "nat \<Rightarrow> bool" where
  "is_digit c \<longleftrightarrow> digit_value c \<noteq> None"

text \<open>\<^verbatim>\<open>re.sub(r"[^\d]", "", s)\<close>\<close>

definition re_sub_non_digits :: "ustring \<Rightarrow> ustring" where
  "re_sub_non_digits s = filter is_digit s"

text \<open>The value of a run of decimal digits, most significant first.\<close>

fun digits_value :: "nat \<Rightarrow> ustring \<Rightarrow> nat option" where
  "digits_value acc [] = Some acc"
| "digits_value acc (c # cs) =
     (case digit_value c of
        None \<Rightarrow> None
      | Some d \<Rightarrow> digits_value (10 * acc + d) cs)"

text \<open>
  \<^verbatim>\<open>int(s)\<close> on a text: surrounding white space, an optional sign, then at least one
  decimal digit; \<open>None\<close> is \<^verbatim>\<open>ValueError\<close>. CPython also refuses more than
  \<^verbatim>\<open>sys.int_max_str_digits\<close> (4300) digits with \<^verbatim>\<open>ValueError\<close>. Underscores between
  digits are not modelled: no caller here can pass one.
\<close>

definition int_max_str_digits :: nat where
  "int_max_str_digits = 4300"

definition parse_digits :: "ustring \<Rightarrow> nat option" where
  "parse_digits ds =
     (if ds = [] \<or> length ds > int_max_str_digits then None else digits_value 0 ds)"

definition py_int :: "ustring \<Rightarrow> int option" where
  "py_int s =
     (case strip s of
        [] \<Rightarrow> None
      | c # cs \<Rightarrow>
          if c = 45 then map_option (\<lambda>n. - int n) (parse_digits cs)
          else if c = 43 then map_option int (parse_digits cs)
          else map_option int (parse_digits (c # cs)))"

text \<open>
  \<^verbatim>\<open>round(x)\<close> of a finite float: the nearest integer, a tie going to the even one.
\<close>

definition py_round :: "rat \<Rightarrow> int" where
  "py_round q =
     (let f = \<lfloor>q\<rfloor>; d = q - of_int f
      in if d < 1 / 2 then f
         else if 1 / 2 < d then f + 1
         else if even f then f else f + 1)"

section \<open>Numeric normalizer\<close>

text \<open>
  \<^verbatim>\<open>PERSIAN_DIGITS = str.maketrans("<U+06F0..U+06F9>", "0123456789")\<close> and
  \<^verbatim>\<open>ARABIC_DIGITS = str.maketrans("<U+0660..U+0669>", "0123456789")\<close>, applied to one
  code point.
\<close>

definition PERSIAN_DIGITS :: "nat \<Rightarrow> nat" where
  "PERSIAN_DIGITS c = (if 1776 \<le> c \<and> c \<le> 1785 then c - 1776 + 48 else c)"

definition ARABIC_DIGITS :: "nat \<Rightarrow> nat" where
  "ARABIC_DIGITS c = (if 1632 \<le> c \<and> c \<le> 1641 then c - 1632 + 48 else c)"

definition translate :: "(nat \<Rightarrow> nat) \<Rightarrow> ustring \<Rightarrow> ustring" where
  "translate table s = map table s"

text \<open>
  The text branch of \<^verbatim>\<open>_normalize_number\<close>, from \<^verbatim>\<open>s = str(val)\<close> on: remove the
  separators \<^verbatim>\<open>","\<close> (44) and U+066C (1644), transliterate, strip, remember a
  leading \<^verbatim>\<open>"-"\<close> (45), drop every non-digit, put the sign back, parse.
\<close>

definition normalize_text :: "ustring \<Rightarrow> int" where
  "normalize_text s0 =
     (let s1 = remove_char 1644 (remove_char 44 s0);
          s2 = translate ARABIC_DIGITS (translate PERSIAN_DIGITS s1);
          s3 = strip s2;
          is_negative = (case s3 of [] \<Rightarrow> False | c # _ \<Rightarrow> c = 45);
          s4 = re_sub_non_digits s3;
          s5 = (if is_negative \<and> s4 \<noteq> [] then 45 # s4 else s4)
      in if s5 = [] \<or> s5 = [45] \<or> s5 = [43] then 0
         else (case py_int s5 of Some n \<Rightarrow> n | None \<Rightarrow> 0))"

text \<open>
  \<^verbatim>\<open>_normalize_number(val)\<close>. \<open>Inl\<close> is an exception that leaves the function:
  \<^verbatim>\<open>int(round(val))\<close> raises \<^verbatim>\<open>OverflowError\<close> on an infinite float, and only
  \<^verbatim>\<open>ValueError\<close> from \<^verbatim>\<open>int(s)\<close> is caught. A \<^verbatim>\<open>bool\<close> is an \<^verbatim>\<open>int\<close> in
  Python and rounds to 0 or 1.
\<close>

definition normalize_number_impl :: "cell \<Rightarrow> error + int" where
  "normalize_number_impl val =
     (case val of
        CNone \<Rightarrow> Inr 0
      | CBool b \<Rightarrow> Inr (if b then 1 else 0)
      | CInt n \<Rightarrow> Inr n
      | CFloat x \<Rightarrow>
          (case x of
             NaN \<Rightarrow> Inr 0
           | Finite q \<Rightarrow> Inr (py_round q)
           | PosInf \<Rightarrow> Inl OverflowError
           | NegInf \<Rightarrow> Inl OverflowError)
      | CStr s \<Rightarrow> Inr (normalize_text s))"

text \<open>\<^verbatim>\<open>normalize_number\<close>: the public wrapper.\<close>

definition normalize_number :: "cell \<Rightarrow> error + int" where
  "normalize_number val = normalize_number_impl val"

section \<open>Pricing tier resolver\<close>

text \<open>
  A row of the \<^verbatim>\<open>PricingTier\<close> table. \<^verbatim>\<open>min_rows\<close> and \<^verbatim>\<open>max_rows\<close> are
  \<^verbatim>\<open>PositiveIntegerField\<close>s and \<^verbatim>\<open>price_per_invoice\<close> a
  \<^verbatim>\<open>PositiveBigIntegerField\<close>, so none is negative; \<^verbatim>\<open>max_rows\<close> is nullable (no
  upper bound). The display name plays no part in pricing and is left out.
\<close>

record PricingTier =
  min_rows :: nat
  max_rows :: "nat option"
  price_per_invoice :: nat

text \<open>\<^verbatim>\<open>PricingTier.objects.all().order_by("min_rows")\<close>\<close>

definition order_by_min_rows :: "PricingTier list \<Rightarrow> PricingTier list" where
  "order_by_min_rows table = sort_key min_rows table"

text \<open>The \<^verbatim>\<open>for tier in tiers\<close> loop with its two returns.\<close>

fun first_matching_price :: "int \<Rightarrow> PricingTier list \<Rightarrow> int" where
  "first_matching_price row_count [] = 0"
| "first_matching_price row_count (tier # tiers) =
     (case max_rows tier of
        None \<Rightarrow>
          if int (min_rows tier) \<le> row_count then int (price_per_invoice tier)
          else first_matching_price row_count tiers
      | Some mx \<Rightarrow>
          if int (min_rows tier) \<le> row_count \<and> row_count \<le> int mx
          then int (price_per_invoice tier)
          else first_matching_price row_count tiers)"

definition calculate_price_for_row_count :: "PricingTier list \<Rightarrow> int \<Rightarrow> int" where
  "calculate_price_for_row_count table row_count =
     (if row_count \<le> 0 then 0
      else first_matching_price row_count (order_by_min_rows table))"

text \<open>The vocabulary of the claims about tier tables.\<close>

definition covers :: "PricingTier \<Rightarrow> int \<Rightarrow> bool" where
  "covers tier n \<longleftrightarrow>
     int (min_rows tier) \<le> n \<and> (case max_rows tier of None \<Rightarrow> True | Some mx \<Rightarrow> n \<le> int mx)"

text \<open>
  Two ranges overlap when some row count lies in both; if one does, the larger of the
  two lower ends does.
\<close>

definition overlaps :: "PricingTier \<Rightarrow> PricingTier \<Rightarrow> bool" where
  "overlaps t u \<longleftrightarrow>
     (let n = int (max (min_rows t) (min_rows u)) in covers t n \<and> covers u n)"

fun non_overlapping :: "PricingTier list \<Rightarrow> bool" where
  "non_overlapping [] = True"
| "non_overlapping (t # ts) = (list_all (\<lambda>u. \<not> overlaps t u) ts \<and> non_overlapping ts)"

definition no_unbounded_tier :: "PricingTier list \<Rightarrow> bool" where
  "no_unbounded_tier table = list_all (\<lambda>t. max_rows t \<noteq> None) table"

definition above_all_tiers :: "PricingTier list \<Rightarrow> int \<Rightarrow> bool" where
  "above_all_tiers table n =
     list_all (\<lambda>t. case max_rows t of None \<Rightarrow> True | Some mx \<Rightarrow> int mx < n) table"

text \<open>Fees that do not fall as \<^verbatim>\<open>min_rows\<close> grows.\<close>

definition fees_ascending :: "PricingTier list \<Rightarrow> bool" where
  "fees_ascending table =
     list_all (\<lambda>t. list_all (\<lambda>u. min_rows t \<le> min_rows u \<longrightarrow>
        price_per_invoice t \<le> price_per_invoice u) table) table"

definition covered :: "PricingTier list \<Rightarrow> int \<Rightarrow> bool" where
  "covered table n = list_ex (\<lambda>t. covers t n) table"

section \<open>Ledger lines and stored rows\<close>

text \<open>
  \<^verbatim>\<open>ParsedRow\<close>: one accumulated line per (sale type, order id, DKPC). The fields
  carry the prefix of the variable the code reads them through (\<^verbatim>\<open>pr.sale_amount\<close>).
\<close>

record ParsedRow =
  pr_sale_type :: string
  pr_order_id :: ustring
  pr_dkpc :: ustring
  pr_title :: ustring
  pr_sale_amount :: int
  pr_is_return :: bool
  pr_commission_amount :: int
  pr_shipping_fee :: int
  pr_processing_fee :: int
  pr_platform_dev_revenue :: int

text \<open>
  \<^verbatim>\<open>InvoiceRow\<close>: the stored line of one invoice (\<^verbatim>\<open>row.sale_amount\<close>);
  \<^verbatim>\<open>purchase_price\<close>, \<^verbatim>\<open>tax_amount\<close> and \<^verbatim>\<open>profit\<close> default to 0.
\<close>

record InvoiceRow =
  row_sale_type :: string
  row_order_id :: ustring
  row_dkpc :: ustring
  row_title :: ustring
  row_sale_amount :: int
  row_purchase_price :: int
  row_commission_amount :: int
  row_shipping_fee :: int
  row_processing_fee :: int
  row_platform_dev_revenue :: int
  row_tax_amount :: int
  row_profit :: int
  row_is_return :: bool

definition SALE_TYPE_CASH :: string where
  "SALE_TYPE_CASH = ''cash''"

definition SALE_TYPE_CREDIT :: string where
  "SALE_TYPE_CREDIT = ''credit''"

subsection \<open>Finalization\<close>

text \<open>
  The body of \<^verbatim>\<open>for pr in parsed_rows\<close> in \<^verbatim>\<open>process_invoice_file\<close>: the row
  handed to \<^verbatim>\<open>InvoiceRow.objects.create\<close>.
\<close>

definition finalize_row :: "ParsedRow \<Rightarrow> InvoiceRow" where
  "finalize_row pr =
     (let is_return = (pr_is_return pr \<or> pr_sale_amount pr \<le> 0) in
      if is_return then
        \<lparr>row_sale_type = pr_sale_type pr, row_order_id = pr_order_id pr,
         row_dkpc = pr_dkpc pr, row_title = pr_title pr,
         row_sale_amount = 0, row_purchase_price = 0, row_commission_amount = 0,
         row_shipping_fee = 0, row_processing_fee = 0, row_platform_dev_revenue = 0,
         row_tax_amount = 0, row_profit = 0, row_is_return = is_return\<rparr>
      else
        (let sale_amount = max 0 (pr_sale_amount pr);
             commission_amount = max 0 (pr_commission_amount pr);
             shipping_fee = max 0 (pr_shipping_fee pr);
             processing_fee = max 0 (pr_processing_fee pr);
             platform_dev_revenue = max 0 (pr_platform_dev_revenue pr);
             tax_amount = (commission_amount + processing_fee) div 10
         in \<lparr>row_sale_type = pr_sale_type pr, row_order_id = pr_order_id pr,
             row_dkpc = pr_dkpc pr, row_title = pr_title pr,
             row_sale_amount = sale_amount, row_purchase_price = 0,
             row_commission_amount = commission_amount, row_shipping_fee = shipping_fee,
             row_processing_fee = processing_fee,
             row_platform_dev_revenue = platform_dev_revenue,
             row_tax_amount = tax_amount, row_profit = 0, row_is_return = is_return\<rparr>))"

subsection \<open>Profit recalculation\<close>

text \<open>One turn of the loop of \<^verbatim>\<open>recalc_profit\<close>.\<close>

definition recalc_row :: "InvoiceRow \<Rightarrow> InvoiceRow" where
  "recalc_row row =
     (if row_is_return row \<or> row_purchase_price row \<le> 0 then
        row\<lparr>row_profit := 0, row_tax_amount := 0\<rparr>
      else
        (let tax = (row_commission_amount row + row_processing_fee row) div 10;
             total_cost =
               (if row_sale_type row = SALE_TYPE_CASH then
                  row_purchase_price row + row_commission_amount row
                  + row_shipping_fee row + row_processing_fee row + tax
                else
                  row_purchase_price row + row_platform_dev_revenue row
                  + row_commission_amount row + row_shipping_fee row
                  + row_processing_fee row + tax)
         in row\<lparr>row_tax_amount := tax, row_profit := row_sale_amount row - total_cost\<rparr>))"

text \<open>
  \<^verbatim>\<open>recalc_profit(invoice)\<close> on the rows of the invoice: every row is recomputed and
  \<^verbatim>\<open>bulk_update\<close> writes \<^verbatim>\<open>profit\<close> and \<^verbatim>\<open>tax_amount\<close> back.
\<close>

definition recalc_profit :: "InvoiceRow list \<Rightarrow> InvoiceRow list" where
  "recalc_profit rows = map recalc_row rows"

text \<open>
  \<^verbatim>\<open>InvoiceRow.objects.filter(invoice=invoice, dkpc=dkpc).update(purchase_price=price_val)\<close>
\<close>

definition update_purchase_price :: "ustring \<Rightarrow> int \<Rightarrow> InvoiceRow list \<Rightarrow> InvoiceRow list" where
  "update_purchase_price dkpc price_val rows =
     map (\<lambda>row. if row_dkpc row = dkpc then row\<lparr>row_purchase_price := price_val\<rparr> else row) rows"

section \<open>Workbooks\<close>

text \<open>
  What the program needs from outside its own code: \<^verbatim>\<open>str.lower\<close> (the Unicode case
  table), \<^verbatim>\<open>str(x)\<close> of a float, and the record store's verdict on a row handed to
  \<^verbatim>\<open>InvoiceRow.objects.create\<close> (\<open>Some e\<close>: the store raises \<open>e\<close>).
\<close>

record env =
  env_lower :: "ustring \<Rightarrow> ustring"
  env_float_str :: "pyfloat \<Rightarrow> ustring"
  env_create_error :: "InvoiceRow \<Rightarrow> error option"

text \<open>
  \<^verbatim>\<open>str(c)\<close> of a cell value: \<^verbatim>\<open>"None"\<close>, \<^verbatim>\<open>"True"\<close> or \<^verbatim>\<open>"False"\<close>, the
  decimal digits of an \<^verbatim>\<open>int\<close>, the text itself.
\<close>

fun nat_digits :: "nat \<Rightarrow> ustring" where
  "nat_digits n = (if n < 10 then [48 + n] else nat_digits (n div 10) @ [48 + n mod 10])"

declare nat_digits.simps [simp del]

definition int_str :: "int \<Rightarrow> ustring" where
  "int_str n = (if n < 0 then 45 # nat_digits (nat (- n)) else nat_digits (nat n))"

definition py_str :: "env \<Rightarrow> cell \<Rightarrow> ustring" where
  "py_str e c =
     (case c of
        CNone \<Rightarrow> [78, 111, 110, 101]
      | CBool b \<Rightarrow> (if b then [84, 114, 117, 101] else [70, 97, 108, 115, 101])
      | CInt n \<Rightarrow> int_str n
      | CFloat x \<Rightarrow> env_float_str e x
      | CStr s \<Rightarrow> s)"

text \<open>
  A worksheet is its rows from the top, each row its cells from the left up to the last
  one stored. \<^verbatim>\<open>iter_rows(values_only=True)\<close> yields every row filled with
  \<^verbatim>\<open>None\<close> up to the sheet's \<^verbatim>\<open>max_column\<close>; a workbook is its sheets by name.
\<close>

type_synonym worksheet = "cell list list"

type_synonym workbook = "(ustring \<times> worksheet) list"

definition max_column :: "worksheet \<Rightarrow> nat" where
  "max_column ws = foldr (\<lambda>r m. max (length r) m) ws 0"

definition iter_rows :: "worksheet \<Rightarrow> cell list list" where
  "iter_rows ws = map (\<lambda>r. r @ replicate (max_column ws - length r) CNone) ws"

text \<open>
  \<^verbatim>\<open>row[idx]\<close>. Every index the program uses comes from the header row, which has the
  width of every other row, so the index is in range; beyond the stored cells a row
  holds \<^verbatim>\<open>None\<close>.
\<close>

definition cell_at :: "cell list \<Rightarrow> nat \<Rightarrow> cell" where
  "cell_at r idx = (if idx < length r then r ! idx else CNone)"

section \<open>Sheet locator and header matcher\<close>

text \<open>
  \<^verbatim>\<open>_get_header_row(ws)\<close>: the first of the first ten rows with at least three
  non-empty cells, every cell as stripped text; \<open>[]\<close> when there is none.
\<close>

fun first_header_row :: "env \<Rightarrow> cell list list \<Rightarrow> ustring list" where
  "first_header_row e [] = []"
| "first_header_row e (r # rs) =
     (let texts = map (\<lambda>c. strip (py_str e c))
                    (filter (\<lambda>c. c \<noteq> CNone \<and> strip (py_str e c) \<noteq> []) r)
      in if length texts \<ge> 3
         then map (\<lambda>c. if c \<noteq> CNone then strip (py_str e c) else []) r
         else first_header_row e rs)"

definition get_header_row :: "env \<Rightarrow> worksheet \<Rightarrow> ustring list" where
  "get_header_row e ws = first_header_row e (take 10 (iter_rows ws))"

text \<open>\<^verbatim>\<open>kw in name\<close>: \<open>kw\<close> occurs in \<open>name\<close> as a contiguous run.\<close>

fun contains :: "ustring \<Rightarrow> ustring \<Rightarrow> bool" where
  "contains kw [] = (kw = [])"
| "contains kw (c # cs) = (take (length kw) (c # cs) = kw \<or> contains kw cs)"

text \<open>\<^verbatim>\<open>_find_col(headers, keywords)\<close>, the index counted from \<open>idx\<close>.\<close>

fun find_col_from :: "env \<Rightarrow> nat \<Rightarrow> ustring list \<Rightarrow> ustring list \<Rightarrow> nat option" where
  "find_col_from e idx [] keywords = None"
| "find_col_from e idx (name # names) keywords =
     (let name_lower = strip (env_lower e name)
      in if list_ex (\<lambda>kw. contains (env_lower e kw) name_lower) keywords
         then Some idx
         else find_col_from e (idx + 1) names keywords)"

definition find_col :: "env \<Rightarrow> ustring list \<Rightarrow> ustring list \<Rightarrow> nat option" where
  "find_col e headers keywords = find_col_from e 0 headers keywords"

text \<open>
  The keyword tables of the two sheet readers, as code points: order number
  (two Persian spellings), variant code (Persian, \<^verbatim>\<open>"dkpc"\<close>, \<^verbatim>\<open>"DKPC"\<close>), title and
  amount.
\<close>

definition KW_ORDER :: "ustring list" where
  "KW_ORDER = [[1588, 1605, 1575, 1585, 1607, 32, 1587, 1601, 1575, 1585, 1588],
               [1588, 1606, 1575, 1587, 1607, 32, 1587, 1601, 1575, 1585, 1588]]"

definition KW_DKPC :: "ustring list" where
  "KW_DKPC = [[1705, 1583, 32, 1578, 1606, 1608, 1593], [100, 107, 112, 99], [68, 75, 80, 67]]"

definition KW_TITLE :: "ustring list" where
  "KW_TITLE = [[1593, 1606, 1608, 1575, 1606, 32, 1578, 1606, 1608, 1593],
               [1593, 1606, 1608, 1575, 1606, 32, 1705, 1575, 1604, 1575]]"

definition KW_AMOUNT :: "ustring list" where
  "KW_AMOUNT = [[1605, 1576, 1604, 1594, 32, 1606, 1607, 1575, 1740, 1740],
                [1605, 1576, 1604, 1594, 32, 1705, 1604],
                [1605, 1576, 1604, 1594]]"

section \<open>Ledger merger\<close>

text \<open>
  \<^verbatim>\<open>rows_map\<close> and \<^verbatim>\<open>parsed_rows\<close> hold the same \<^verbatim>\<open>ParsedRow\<close> objects: the
  dictionary finds by key what the list keeps in first-seen order, and a field assigned
  through one is seen through the other. The state is the list; the dictionary is the
  search of the list by key, and an assignment to a field of \<^verbatim>\<open>rows_map[key]\<close>
  rewrites the row with that key.
\<close>

type_synonym key = "string \<times> ustring \<times> ustring"

definition key_of :: "ParsedRow \<Rightarrow> key" where
  "key_of pr = (pr_sale_type pr, pr_order_id pr, pr_dkpc pr)"

definition rows_map_get :: "ParsedRow list \<Rightarrow> key \<Rightarrow> ParsedRow option" where
  "rows_map_get parsed_rows k = find (\<lambda>pr. key_of pr = k) parsed_rows"

definition update_row :: "key \<Rightarrow> (ParsedRow \<Rightarrow> ParsedRow) \<Rightarrow> ParsedRow list \<Rightarrow> ParsedRow list" where
  "update_row k f parsed_rows = map (\<lambda>pr. if key_of pr = k then f pr else pr) parsed_rows"

text \<open>The \<^verbatim>\<open>ParsedRow(...)\<close> constructor call: the amounts default to 0.\<close>

definition new_parsed_row :: "string \<Rightarrow> ustring \<Rightarrow> ustring \<Rightarrow> ustring \<Rightarrow> bool \<Rightarrow> ParsedRow" where
  "new_parsed_row sale_type order_id dkpc title is_return =
     \<lparr>pr_sale_type = sale_type, pr_order_id = order_id, pr_dkpc = dkpc, pr_title = title,
      pr_sale_amount = 0, pr_is_return = is_return, pr_commission_amount = 0,
      pr_shipping_fee = 0, pr_processing_fee = 0, pr_platform_dev_revenue = 0\<rparr>"

text \<open>
  \<^verbatim>\<open>get_or_create\<close>: a new row only when the key is not in \<^verbatim>\<open>rows_map\<close>; for a
  key already there \<^verbatim>\<open>title\<close> and \<^verbatim>\<open>is_return\<close> are not looked at. The row the
  code gets back is the one with this key in the list returned here.
\<close>

definition get_or_create ::
  "env \<Rightarrow> ParsedRow list \<Rightarrow> string \<Rightarrow> cell \<Rightarrow> cell \<Rightarrow> cell \<Rightarrow> bool \<Rightarrow> ParsedRow list" where
  "get_or_create e parsed_rows sale_type order_id dkpc title is_return =
     (let k = (sale_type, py_str e order_id, py_str e dkpc)
      in if rows_map_get parsed_rows k = None
         then parsed_rows @
              [new_parsed_row sale_type (py_str e order_id) (py_str e dkpc)
                 (if title \<noteq> CNone then py_str e title else []) is_return]
         else parsed_rows)"

text \<open>
  A \<^verbatim>\<open>for row in ...\<close> loop whose body may raise: the exception ends the loop and
  leaves the function.
\<close>

fun for_rows :: "('r \<Rightarrow> 's \<Rightarrow> error + 's) \<Rightarrow> 'r list \<Rightarrow> 's \<Rightarrow> error + 's" where
  "for_rows body [] s = Inr s"
| "for_rows body (r # rs) s =
     (case body r s of Inl err \<Rightarrow> Inl err | Inr s' \<Rightarrow> for_rows body rs s')"

text \<open>
  The lines of \<^verbatim>\<open>log_lines\<close>. Each constructor stands for one message of the code
  and keeps what the message is formatted from.
\<close>

datatype log_line =
    SheetNotFound ustring  \<comment> \<open>sales sheet absent from the workbook\<close>
  | CostSheetNotFound ustring string  \<comment> \<open>cost sheet absent, with its kind\<close>
  | NoValidHeader ustring  \<comment> \<open>no header row in the sheet\<close>
  | KeyColumnsNotFound ustring  \<comment> \<open>order, variant or amount column unresolved\<close>
  | SalesRowsRead ustring nat  \<comment> \<open>sales sheet read, with its \<^verbatim>\<open>count_rows\<close>\<close>
  | CostRowsApplied ustring nat  \<comment> \<open>cost sheet applied, with its \<^verbatim>\<open>count_rows\<close>\<close>

subsection \<open>Sales and return sheets\<close>

text \<open>The body of the row loop of \<^verbatim>\<open>_read_sales_sheet\<close>.\<close>

definition sales_row_step ::
  "env \<Rightarrow> string \<Rightarrow> bool \<Rightarrow> nat \<Rightarrow> nat \<Rightarrow> nat option \<Rightarrow> nat \<Rightarrow> cell list \<Rightarrow>
   ParsedRow list \<times> nat \<Rightarrow> error + (ParsedRow list \<times> nat)" where
  "sales_row_step e sale_type is_return_sheet idx_order idx_dkpc idx_title idx_amount r st =
     (let parsed_rows = fst st; count_rows = snd st;
          order_id = cell_at r idx_order;
          dkpc = cell_at r idx_dkpc;
          title = (case idx_title of Some i \<Rightarrow> cell_at r i | None \<Rightarrow> CStr []);
          amount_raw = cell_at r idx_amount
      in if order_id = CNone \<or> dkpc = CNone then Inr (parsed_rows, count_rows)
         else
           (case normalize_number_impl amount_raw of
              Inl err \<Rightarrow> Inl err
            | Inr amount \<Rightarrow>
                (let k = (sale_type, py_str e order_id, py_str e dkpc);
                     existing_parsed = rows_map_get parsed_rows k;
                     is_return = (is_return_sheet \<or>
                       (case existing_parsed of Some p \<Rightarrow> pr_is_return p | None \<Rightarrow> False));
                     parsed_rows1 =
                       get_or_create e parsed_rows sale_type order_id dkpc title is_return;
                     parsed_rows2 = update_row k
                       (\<lambda>parsed.
                          if is_return_sheet
                          then parsed\<lparr>pr_sale_amount := pr_sale_amount parsed - \<bar>amount\<bar>\<rparr>
                          else parsed\<lparr>pr_sale_amount := pr_sale_amount parsed + amount\<rparr>)
                       parsed_rows1
                 in Inr (parsed_rows2, count_rows + 1))))"

text \<open>
  \<^verbatim>\<open>_read_sales_sheet(sheet_name, sale_type, is_return_sheet)\<close> on the state
  (\<^verbatim>\<open>parsed_rows\<close>, \<^verbatim>\<open>log_lines\<close>). The data rows start at the second row of the
  sheet wherever the header was found.
\<close>

definition read_sales_sheet ::
  "env \<Rightarrow> workbook \<Rightarrow> ustring \<Rightarrow> string \<Rightarrow> bool \<Rightarrow> ParsedRow list \<times> log_line list \<Rightarrow>
   error + (ParsedRow list \<times> log_line list)" where
  "read_sales_sheet e wb sheet_name sale_type is_return_sheet st =
     (let parsed_rows = fst st; log_lines = snd st in
      case map_of wb sheet_name of
        None \<Rightarrow> Inr (parsed_rows, log_lines @ [SheetNotFound sheet_name])
      | Some ws \<Rightarrow>
          (let headers = get_header_row e ws in
           if headers = [] then Inr (parsed_rows, log_lines @ [NoValidHeader sheet_name])
           else
             (let idx_order = find_col e headers KW_ORDER;
                  idx_dkpc = find_col e headers KW_DKPC;
                  idx_title = find_col e headers KW_TITLE;
                  idx_amount = find_col e headers KW_AMOUNT
              in case (idx_order, idx_dkpc, idx_amount) of
                   (Some i_order, Some i_dkpc, Some i_amount) \<Rightarrow>
                     (case for_rows
                             (sales_row_step e sale_type is_return_sheet i_order i_dkpc idx_title i_amount)
                             (drop 1 (iter_rows ws)) (parsed_rows, 0) of
                        Inl err \<Rightarrow> Inl err
                      | Inr res \<Rightarrow>
                          Inr (fst res, log_lines @ [SalesRowsRead sheet_name (snd res)]))
                 | _ \<Rightarrow> Inr (parsed_rows, log_lines @ [KeyColumnsNotFound sheet_name]))))"

subsection \<open>Cost sheets\<close>

text \<open>The \<^verbatim>\<open>if kind == ...\<close> chain: an unknown kind changes no field.\<close>

definition add_cost :: "string \<Rightarrow> int \<Rightarrow> ParsedRow \<Rightarrow> ParsedRow" where
  "add_cost kind amount parsed =
     (if kind = ''commission''
        then parsed\<lparr>pr_commission_amount := pr_commission_amount parsed + amount\<rparr>
      else if kind = ''shipping''
        then parsed\<lparr>pr_shipping_fee := pr_shipping_fee parsed + amount\<rparr>
      else if kind = ''processing''
        then parsed\<lparr>pr_processing_fee := pr_processing_fee parsed + amount\<rparr>
      else if kind = ''platform_dev''
        then parsed\<lparr>pr_platform_dev_revenue := pr_platform_dev_revenue parsed + amount\<rparr>
      else parsed)"

text \<open>The body of the row loop of \<^verbatim>\<open>_apply_cost_sheet\<close>.\<close>

definition cost_row_step ::
  "env \<Rightarrow> string \<Rightarrow> string \<Rightarrow> int \<Rightarrow> nat \<Rightarrow> nat \<Rightarrow> nat \<Rightarrow> cell list \<Rightarrow>
   ParsedRow list \<times> nat \<Rightarrow> error + (ParsedRow list \<times> nat)" where
  "cost_row_step e sale_type kind sign idx_order idx_dkpc idx_amount r st =
     (let parsed_rows = fst st; count_rows = snd st;
          order_id = cell_at r idx_order;
          dkpc = cell_at r idx_dkpc;
          amount_raw = cell_at r idx_amount
      in if order_id = CNone \<or> dkpc = CNone then Inr (parsed_rows, count_rows)
         else
           (case normalize_number_impl amount_raw of
              Inl err \<Rightarrow> Inl err
            | Inr n \<Rightarrow>
                (let amount = n * sign;
                     k = (sale_type, py_str e order_id, py_str e dkpc);
                     parsed_rows1 =
                       (if rows_map_get parsed_rows k = None
                        then parsed_rows @
                             [new_parsed_row sale_type (py_str e order_id) (py_str e dkpc)
                                [] False]
                        else parsed_rows);
                     parsed_rows2 = update_row k (add_cost kind amount) parsed_rows1
                 in Inr (parsed_rows2, count_rows + 1))))"

text \<open>\<^verbatim>\<open>_apply_cost_sheet(sheet_name, sale_type, kind, is_return_sheet)\<close>\<close>

definition apply_cost_sheet ::
  "env \<Rightarrow> workbook \<Rightarrow> ustring \<Rightarrow> string \<Rightarrow> string \<Rightarrow> bool \<Rightarrow>
   ParsedRow list \<times> log_line list \<Rightarrow> error + (ParsedRow list \<times> log_line list)" where
  "apply_cost_sheet e wb sheet_name sale_type kind is_return_sheet st =
     (let parsed_rows = fst st; log_lines = snd st in
      case map_of wb sheet_name of
        None \<Rightarrow> Inr (parsed_rows, log_lines @ [CostSheetNotFound sheet_name kind])
      | Some ws \<Rightarrow>
          (let headers = get_header_row e ws in
           if headers = [] then Inr (parsed_rows, log_lines @ [NoValidHeader sheet_name])
           else
             (let idx_order = find_col e headers KW_ORDER;
                  idx_dkpc = find_col e headers KW_DKPC;
                  idx_amount = find_col e headers KW_AMOUNT
              in case (idx_order, idx_dkpc, idx_amount) of
                   (Some i_order, Some i_dkpc, Some i_amount) \<Rightarrow>
                     (let sign = (if is_return_sheet then - 1 else 1) in
                      case for_rows (cost_row_step e sale_type kind sign i_order i_dkpc i_amount)
                             (drop 1 (iter_rows ws)) (parsed_rows, 0) of
                        Inl err \<Rightarrow> Inl err
                      | Inr res \<Rightarrow>
                          Inr (fst res, log_lines @ [CostRowsApplied sheet_name (snd res)]))
                 | _ \<Rightarrow> Inr (parsed_rows, log_lines @ [KeyColumnsNotFound sheet_name]))))"

subsection \<open>The fixed sequence of sheets\<close>

text \<open>
  The Persian words the sheet names are made of, as code points: sale, "return from",
  "on credit", sale commission, shipping cost, processing cost, platform development
  revenue, cost of a return from the customer.
\<close>

definition W_SALE :: ustring where
  "W_SALE = [1601, 1585, 1608, 1588]"

definition W_RETURN_FROM :: ustring where
  "W_RETURN_FROM = [1576, 1585, 1711, 1588, 1578, 32, 1575, 1586, 32]"

definition W_CREDIT :: ustring where
  "W_CREDIT = [32, 1575, 1593, 1578, 1576, 1575, 1585, 1740]"

definition W_COMMISSION :: ustring where
  "W_COMMISSION = [1705, 1605, 1740, 1587, 1740, 1608, 1606, 32, 1601, 1585, 1608, 1588]"

definition W_SHIPPING :: ustring where
  "W_SHIPPING = [1607, 1586, 1740, 1606, 1607, 32, 1575, 1585, 1587, 1575, 1604]"

definition W_PROCESSING :: ustring where
  "W_PROCESSING = [1607, 1586, 1740, 1606, 1607, 32, 1662, 1585, 1583, 1575, 1586, 1588]"

definition W_PLATFORM_DEV :: ustring where
  "W_PLATFORM_DEV = [1583, 1585, 1570, 1605, 1583, 32, 1578, 1608, 1587, 1593, 1607, 32,
     1662, 1604, 1578, 1601, 1585, 1605]"

definition W_CUSTOMER_RETURN_COST :: ustring where
  "W_CUSTOMER_RETURN_COST = [1607, 1586, 1740, 1606, 1607, 32, 1576, 1585, 1711, 1588,
     1578, 32, 1575, 1586, 32, 1605, 1588, 1578, 1585, 1740]"

text \<open>One call of a sheet reader, with the arguments the code passes.\<close>

datatype sheet_call =
    ReadSales ustring string bool  \<comment> \<open>sheet name, sale type, return sheet\<close>
  | ApplyCost ustring string string bool  \<comment> \<open>sheet name, sale type, kind, return sheet\<close>

text \<open>The nineteen calls of \<^verbatim>\<open>parse_invoice_excel\<close>, in the order of the code.\<close>

definition sheet_calls :: "sheet_call list" where
  "sheet_calls =
     [ReadSales W_SALE ''cash'' False,
      ReadSales (W_RETURN_FROM @ W_SALE) ''cash'' True,
      ReadSales (W_SALE @ W_CREDIT) ''credit'' False,
      ReadSales (W_RETURN_FROM @ W_SALE @ W_CREDIT) ''credit'' True,
      ApplyCost W_COMMISSION ''cash'' ''commission'' False,
      ApplyCost (W_COMMISSION @ W_CREDIT) ''credit'' ''commission'' False,
      ApplyCost (W_RETURN_FROM @ W_COMMISSION) ''cash'' ''commission'' True,
      ApplyCost (W_RETURN_FROM @ W_COMMISSION @ W_CREDIT) ''credit'' ''commission'' True,
      ApplyCost W_SHIPPING ''cash'' ''shipping'' False,
      ApplyCost (W_SHIPPING @ W_CREDIT) ''credit'' ''shipping'' False,
      ApplyCost (W_RETURN_FROM @ W_SHIPPING) ''cash'' ''shipping'' True,
      ApplyCost (W_RETURN_FROM @ W_SHIPPING @ W_CREDIT) ''credit'' ''shipping'' True,
      ApplyCost W_PROCESSING ''cash'' ''processing'' False,
      ApplyCost (W_PROCESSING @ W_CREDIT) ''credit'' ''processing'' False,
      ApplyCost (W_RETURN_FROM @ W_PROCESSING) ''cash'' ''processing'' True,
      ApplyCost (W_RETURN_FROM @ W_PROCESSING @ W_CREDIT) ''credit'' ''processing'' True,
      ApplyCost W_PLATFORM_DEV ''credit'' ''platform_dev'' False,
      ApplyCost (W_RETURN_FROM @ W_PLATFORM_DEV) ''credit'' ''platform_dev'' True,
      ApplyCost W_CUSTOMER_RETURN_COST ''cash'' ''shipping'' False]"

fun run_call ::
  "env \<Rightarrow> workbook \<Rightarrow> sheet_call \<Rightarrow> ParsedRow list \<times> log_line list \<Rightarrow>
   error + (ParsedRow list \<times> log_line list)" where
  "run_call e wb (ReadSales sheet_name sale_type is_return_sheet) st =
     read_sales_sheet e wb sheet_name sale_type is_return_sheet st"
| "run_call e wb (ApplyCost sheet_name sale_type kind is_return_sheet) st =
     apply_cost_sheet e wb sheet_name sale_type kind is_return_sheet st"

text \<open>
  The body of \<^verbatim>\<open>parse_invoice_excel\<close> for a sequence of calls, from the empty
  \<^verbatim>\<open>parsed_rows\<close> and \<^verbatim>\<open>log_lines\<close>.
\<close>

definition run_calls ::
  "env \<Rightarrow> workbook \<Rightarrow> sheet_call list \<Rightarrow> error + (ParsedRow list \<times> log_line list)" where
  "run_calls e wb calls = for_rows (run_call e wb) calls ([], [])"

text \<open>
  \<^verbatim>\<open>parse_invoice_excel(file_path)\<close>. \<^verbatim>\<open>load_workbook\<close> either raises or gives
  the workbook; closing it in \<^verbatim>\<open>finally\<close> changes no result. The result is
  \<^verbatim>\<open>parsed_rows\<close> and the log; \<^verbatim>\<open>row_count\<close> of \<^verbatim>\<open>extra_info\<close> is the length
  of \<^verbatim>\<open>parsed_rows\<close>.
\<close>

definition parse_invoice_excel ::
  "env \<Rightarrow> error + workbook \<Rightarrow> error + (ParsedRow list \<times> log_line list)" where
  "parse_invoice_excel e loaded =
     (case loaded of
        Inl err \<Rightarrow> Inl err
      | Inr wb \<Rightarrow> run_calls e wb sheet_calls)"

section \<open>Processing an invoice file\<close>

text \<open>
  What the database holds for one invoice: its \<^verbatim>\<open>InvoiceRow\<close>s, the fields of its
  \<^verbatim>\<open>InvoiceFile\<close> that processing writes, and the tier table.
\<close>

record store =
  invoice_rows :: "InvoiceRow list"
  inv_status :: string
  inv_error_message :: ustring
  inv_row_count :: int
  inv_processing_price :: int
  pricing_tiers :: "PricingTier list"

definition STATUS_PROCESSING :: string where
  "STATUS_PROCESSING = ''processing''"

definition STATUS_DONE :: string where
  "STATUS_DONE = ''done''"

definition STATUS_ERROR :: string where
  "STATUS_ERROR = ''error''"

text \<open>\<^verbatim>\<open>str(e)\<close> of the exception.\<close>

definition error_text :: "error \<Rightarrow> ustring" where
  "error_text err =
     (case err of
        OverflowError \<Rightarrow> map of_char ''cannot convert float infinity to integer''
      | LoadError msg \<Rightarrow> msg
      | StoreError msg \<Rightarrow> msg)"

text \<open>
  One turn of \<^verbatim>\<open>for pr in parsed_rows\<close>: \<^verbatim>\<open>InvoiceRow.objects.create\<close> either
  raises or appends the row.
\<close>

definition create_row_step :: "env \<Rightarrow> ParsedRow \<Rightarrow> store \<times> int \<Rightarrow> error + (store \<times> int)" where
  "create_row_step e pr st =
     (let db = fst st; row_count = snd st; row = finalize_row pr in
      case env_create_error e row of
        Some err \<Rightarrow> Inl err
      | None \<Rightarrow> Inr (db\<lparr>invoice_rows := invoice_rows db @ [row]\<rparr>, row_count + 1))"

text \<open>
  The block under \<^verbatim>\<open>with transaction.atomic()\<close>: delete the rows of the invoice,
  create the new ones, set count, price and status. An exception inside leaves the
  block without a new store: the transaction is rolled back, and the caller goes on
  with the store it had before the block.
\<close>

definition atomic_block :: "env \<Rightarrow> ParsedRow list \<Rightarrow> store \<Rightarrow> error + store" where
  "atomic_block e parsed_rows db =
     (case for_rows (create_row_step e) parsed_rows (db\<lparr>invoice_rows := []\<rparr>, 0) of
        Inl err \<Rightarrow> Inl err
      | Inr res \<Rightarrow>
          (let db' = fst res; row_count = snd res in
           Inr (db'\<lparr>inv_row_count := row_count,
                     inv_processing_price :=
                       calculate_price_for_row_count (pricing_tiers db') row_count,
                     inv_status := STATUS_DONE\<rparr>)))"

text \<open>What \<^verbatim>\<open>process_invoice_file\<close> returns next to the count: the log or the error.\<close>

datatype report = LogText "log_line list" | ErrorText error

text \<open>
  \<^verbatim>\<open>process_invoice_file(invoice)\<close>, with the outcome of \<^verbatim>\<open>load_workbook\<close> on the
  invoice's file as an argument (fetching the file, from its path or through a
  temporary copy, is part of that outcome): the \<^verbatim>\<open>try\<close> body is the parse and the
  atomic block, the \<^verbatim>\<open>except Exception\<close> handler marks the invoice as failed.
\<close>

definition process_invoice_file ::
  "env \<Rightarrow> error + workbook \<Rightarrow> store \<Rightarrow> (int \<times> report) \<times> store" where
  "process_invoice_file e loaded db0 =
     (let db1 = db0\<lparr>inv_status := STATUS_PROCESSING, inv_error_message := []\<rparr> in
      case (case parse_invoice_excel e loaded of
              Inl err \<Rightarrow> Inl err
            | Inr parsed \<Rightarrow>
                (case atomic_block e (fst parsed) db1 of
                   Inl err \<Rightarrow> Inl err
                 | Inr db2 \<Rightarrow> Inr (db2, snd parsed))) of
        Inr ok \<Rightarrow> ((inv_row_count (fst ok), LogText (snd ok)), fst ok)
      | Inl err \<Rightarrow>
          ((0, ErrorText err),
           db1\<lparr>inv_status := STATUS_ERROR, inv_error_message := error_text err\<rparr>))"

section \<open>Contributions of the sheets\<close>

text \<open>
  The claims about merging speak of the contributions a ledger line receives. A
  contribution is what one data row of one sheet does to the ledger, read off the row
  the way the two row loops read it: the identity it names, the title and the return
  flag a line gets when this row creates it, the field it adds to and the signed amount
  it adds. The sheet readers are proved below to be the fold of the contributions.
\<close>

datatype target = SaleAmount | CostOf string

record contribution =
  c_key :: key
  c_title :: ustring
  c_return :: bool
  c_target :: target
  c_amount :: int

definition sales_contribution ::
  "env \<Rightarrow> string \<Rightarrow> bool \<Rightarrow> nat \<Rightarrow> nat \<Rightarrow> nat option \<Rightarrow> nat \<Rightarrow> cell list \<Rightarrow>
   error + contribution option" where
  "sales_contribution e sale_type is_return_sheet idx_order idx_dkpc idx_title idx_amount r =
     (if cell_at r idx_order = CNone \<or> cell_at r idx_dkpc = CNone then Inr None
      else
        (case normalize_number_impl (cell_at r idx_amount) of
           Inl err \<Rightarrow> Inl err
         | Inr amount \<Rightarrow>
             Inr (Some
               \<lparr>c_key = (sale_type, py_str e (cell_at r idx_order), py_str e (cell_at r idx_dkpc)),
                c_title =
                  (case idx_title of
                     None \<Rightarrow> []
                   | Some i \<Rightarrow> if cell_at r i \<noteq> CNone then py_str e (cell_at r i) else []),
                c_return = is_return_sheet,
                c_target = SaleAmount,
                c_amount = (if is_return_sheet then - \<bar>amount\<bar> else amount)\<rparr>)))"

definition cost_contribution ::
  "env \<Rightarrow> string \<Rightarrow> string \<Rightarrow> int \<Rightarrow> nat \<Rightarrow> nat \<Rightarrow> nat \<Rightarrow> cell list \<Rightarrow>
   error + contribution option" where
  "cost_contribution e sale_type kind sign idx_order idx_dkpc idx_amount r =
     (if cell_at r idx_order = CNone \<or> cell_at r idx_dkpc = CNone then Inr None
      else
        (case normalize_number_impl (cell_at r idx_amount) of
           Inl err \<Rightarrow> Inl err
         | Inr n \<Rightarrow>
             Inr (Some
               \<lparr>c_key = (sale_type, py_str e (cell_at r idx_order), py_str e (cell_at r idx_dkpc)),
                c_title = [], c_return = False, c_target = CostOf kind,
                c_amount = n * sign\<rparr>)))"

text \<open>The contributions of the rows of one sheet, or the first exception.\<close>

fun collect :: "(error + 'a option) list \<Rightarrow> error + 'a list" where
  "collect [] = Inr []"
| "collect (x # xs) =
     (case x of
        Inl err \<Rightarrow> Inl err
      | Inr v \<Rightarrow>
          (case collect xs of
             Inl err \<Rightarrow> Inl err
           | Inr vs \<Rightarrow> Inr (case v of None \<Rightarrow> vs | Some c \<Rightarrow> c # vs)))"

definition add_amount :: "target \<Rightarrow> int \<Rightarrow> ParsedRow \<Rightarrow> ParsedRow" where
  "add_amount t a pr =
     (case t of
        SaleAmount \<Rightarrow> pr\<lparr>pr_sale_amount := pr_sale_amount pr + a\<rparr>
      | CostOf kind \<Rightarrow> add_cost kind a pr)"

text \<open>What one contribution does to \<^verbatim>\<open>parsed_rows\<close>.\<close>

definition apply_contribution :: "contribution \<Rightarrow> ParsedRow list \<Rightarrow> ParsedRow list" where
  "apply_contribution c parsed_rows =
     update_row (c_key c) (add_amount (c_target c) (c_amount c))
       (if rows_map_get parsed_rows (c_key c) = None
        then parsed_rows @
             [new_parsed_row (fst (c_key c)) (fst (snd (c_key c))) (snd (snd (c_key c)))
                (c_title c) (c_return c)]
        else parsed_rows)"

text \<open>
  The contributions of one sheet call: none when the sheet is absent, has no header or
  lacks a key column.
\<close>

fun sheet_contributions :: "env \<Rightarrow> workbook \<Rightarrow> sheet_call \<Rightarrow> error + contribution list" where
  "sheet_contributions e wb (ReadSales sheet_name sale_type is_return_sheet) =
     (case map_of wb sheet_name of
        None \<Rightarrow> Inr []
      | Some ws \<Rightarrow>
          (let headers = get_header_row e ws in
           if headers = [] then Inr []
           else
             (case (find_col e headers KW_ORDER, find_col e headers KW_DKPC,
                    find_col e headers KW_AMOUNT) of
                (Some i_order, Some i_dkpc, Some i_amount) \<Rightarrow>
                  collect (map (sales_contribution e sale_type is_return_sheet i_order i_dkpc
                                  (find_col e headers KW_TITLE) i_amount)
                             (drop 1 (iter_rows ws)))
              | _ \<Rightarrow> Inr [])))"
| "sheet_contributions e wb (ApplyCost sheet_name sale_type kind is_return_sheet) =
     (case map_of wb sheet_name of
        None \<Rightarrow> Inr []
      | Some ws \<Rightarrow>
          (let headers = get_header_row e ws in
           if headers = [] then Inr []
           else
             (case (find_col e headers KW_ORDER, find_col e headers KW_DKPC,
                    find_col e headers KW_AMOUNT) of
                (Some i_order, Some i_dkpc, Some i_amount) \<Rightarrow>
                  collect (map (cost_contribution e sale_type kind
                                  (if is_return_sheet then - 1 else 1) i_order i_dkpc i_amount)
                             (drop 1 (iter_rows ws)))
              | _ \<Rightarrow> Inr [])))"

text \<open>The contributions of a sequence of sheet calls, in processing order.\<close>

fun all_contributions :: "env \<Rightarrow> workbook \<Rightarrow> sheet_call list \<Rightarrow> error + contribution list" where
  "all_contributions e wb [] = Inr []"
| "all_contributions e wb (call # calls) =
     (case sheet_contributions e wb call of
        Inl err \<Rightarrow> Inl err
      | Inr cs \<Rightarrow>
          (case all_contributions e wb calls of
             Inl err \<Rightarrow> Inl err
           | Inr cs' \<Rightarrow> Inr (cs @ cs')))"

definition contributions_of :: "env \<Rightarrow> workbook \<Rightarrow> sheet_call list \<Rightarrow> contribution list" where
  "contributions_of e wb calls =
     (case all_contributions e wb calls of Inl err \<Rightarrow> [] | Inr cs \<Rightarrow> cs)"

text \<open>The title of the first contribution that carries an identity.\<close>

definition first_title :: "contribution list \<Rightarrow> key \<Rightarrow> ustring" where
  "first_title cs k = (case find (\<lambda>c. c_key c = k) cs of None \<Rightarrow> [] | Some c \<Rightarrow> c_title c)"

text \<open>The last non-empty title among the contributions that carry an identity.\<close>

definition last_non_empty_title :: "contribution list \<Rightarrow> key \<Rightarrow> ustring" where
  "last_non_empty_title cs k =
     (case filter (\<lambda>t. t \<noteq> []) (map c_title (filter (\<lambda>c. c_key c = k) cs)) of
        [] \<Rightarrow> []
      | t # ts \<Rightarrow> last (t # ts))"

text \<open>
  The five accumulated amounts of a line (sale, commission, shipping, processing,
  platform development), and the amounts of every identity of a ledger: \<open>None\<close> for an
  identity without a line.
\<close>

type_synonym amounts = "int \<times> int \<times> int \<times> int \<times> int"

definition amounts_of :: "ParsedRow \<Rightarrow> amounts" where
  "amounts_of pr =
     (pr_sale_amount pr, pr_commission_amount pr, pr_shipping_fee pr, pr_processing_fee pr,
      pr_platform_dev_revenue pr)"

definition add_amounts :: "amounts \<Rightarrow> amounts \<Rightarrow> amounts" where
  "add_amounts a b =
     (case a of (a1, a2, a3, a4, a5) \<Rightarrow>
        case b of (b1, b2, b3, b4, b5) \<Rightarrow> (a1 + b1, a2 + b2, a3 + b3, a4 + b4, a5 + b5))"

definition contribution_amounts :: "contribution \<Rightarrow> amounts" where
  "contribution_amounts c =
     (case c_target c of
        SaleAmount \<Rightarrow> (c_amount c, 0, 0, 0, 0)
      | CostOf kind \<Rightarrow>
          if kind = ''commission'' then (0, c_amount c, 0, 0, 0)
          else if kind = ''shipping'' then (0, 0, c_amount c, 0, 0)
          else if kind = ''processing'' then (0, 0, 0, c_amount c, 0)
          else if kind = ''platform_dev'' then (0, 0, 0, 0, c_amount c)
          else (0, 0, 0, 0, 0))"

definition totals :: "ParsedRow list \<Rightarrow> key \<Rightarrow> amounts option" where
  "totals parsed_rows k = map_option amounts_of (rows_map_get parsed_rows k)"

definition add_totals :: "contribution \<Rightarrow> (key \<Rightarrow> amounts option) \<Rightarrow> key \<Rightarrow> amounts option" where
  "add_totals c m =
     m(c_key c \<mapsto>
       add_amounts (case m (c_key c) of None \<Rightarrow> (0, 0, 0, 0, 0) | Some v \<Rightarrow> v)
         (contribution_amounts c))"

definition sale_of :: "amounts option \<Rightarrow> int" where
  "sale_of x = (case x of None \<Rightarrow> 0 | Some v \<Rightarrow> fst v)"

text \<open>
  The outcome of a failed run: the count 0 with the error, the invoice in the failed
  state with the text of the error, and the rows of the invoice as they were.
\<close>

definition run_failed :: "store \<Rightarrow> (int \<times> report) \<times> store \<Rightarrow> error \<Rightarrow> bool" where
  "run_failed db0 out err \<longleftrightarrow>
     fst out = (0, ErrorText err) \<and> inv_status (snd out) = STATUS_ERROR \<and>
     inv_error_message (snd out) = error_text err \<and>
     invoice_rows (snd out) = invoice_rows db0"

section \<open>Worked inputs\<close>

text \<open>
  An environment for workbooks whose only cased letters are ASCII (Persian has no
  case): \<^verbatim>\<open>str.lower\<close> maps A to Z. No float is turned into text in the workbooks
  below, and the store accepts every row.
\<close>

definition ascii_lower :: "ustring \<Rightarrow> ustring" where
  "ascii_lower s = map (\<lambda>c. if 65 \<le> c \<and> c \<le> 90 then c + 32 else c) s"

definition plain_env :: env where
  "plain_env =
     \<lparr>env_lower = ascii_lower, env_float_str = (\<lambda>x. []), env_create_error = (\<lambda>row. None)\<rparr>"

text \<open>The same environment with a store that refuses every row.\<close>

definition refusing_env :: env where
  "refusing_env =
     \<lparr>env_lower = ascii_lower, env_float_str = (\<lambda>x. []),
      env_create_error = (\<lambda>row. Some (StoreError [111, 117, 116]))\<rparr>"

text \<open>
  A header row: order number (Persian), \<^verbatim>\<open>"DKPC"\<close>, variant title (Persian), amount
  (Persian).
\<close>

definition example_header :: "cell list" where
  "example_header =
     [CStr [1588, 1605, 1575, 1585, 1607, 32, 1587, 1601, 1575, 1585, 1588],
      CStr [68, 75, 80, 67],
      CStr [1593, 1606, 1608, 1575, 1606, 32, 1578, 1606, 1608, 1593],
      CStr [1605, 1576, 1604, 1594]]"

text \<open>
  Order \<^verbatim>\<open>"1"\<close>, variant \<^verbatim>\<open>"A"\<close>: sold for 100 under the title \<^verbatim>\<open>"X"\<close> in the cash
  sales sheet, then returned for 30 under the title \<^verbatim>\<open>"Y"\<close> in the cash return sheet.
\<close>

definition wb_partial_return :: workbook where
  "wb_partial_return =
     [(W_SALE, [example_header, [CStr [49], CStr [65], CStr [88], CInt 100]]),
      (W_RETURN_FROM @ W_SALE, [example_header, [CStr [49], CStr [65], CStr [89], CInt 30]])]"

text \<open>The same sale, with a commission of 10 in the cash commission sheet.\<close>

definition wb_sale_and_commission :: workbook where
  "wb_sale_and_commission =
     [(W_SALE, [example_header, [CStr [49], CStr [65], CStr [88], CInt 100]]),
      (W_COMMISSION, [example_header, [CStr [49], CStr [65], CStr [88], CInt 10]])]"

text \<open>A commission of 10 for an order that no sales sheet names.\<close>

definition wb_cost_only :: workbook where
  "wb_cost_only =
     [(W_COMMISSION, [example_header, [CStr [49], CStr [65], CStr [88], CInt 10]])]"

text \<open>A sale whose amount cell holds a float infinity.\<close>

definition wb_infinite_amount :: workbook where
  "wb_infinite_amount =
     [(W_SALE, [example_header, [CStr [49], CStr [65], CStr [88], CFloat PosInf]])]"

text \<open>
  The sheet calls of the program with the first (cash sales) and the fifth (cash
  commission) exchanged.
\<close>

definition cost_first_calls :: "sheet_call list" where
  "cost_first_calls =
     [ApplyCost W_COMMISSION ''cash'' ''commission'' False,
      ReadSales (W_RETURN_FROM @ W_SALE) ''cash'' True,
      ReadSales (W_SALE @ W_CREDIT) ''credit'' False,
      ReadSales (W_RETURN_FROM @ W_SALE @ W_CREDIT) ''credit'' True,
      ReadSales W_SALE ''cash'' False,
      ApplyCost (W_COMMISSION @ W_CREDIT) ''credit'' ''commission'' False,
      ApplyCost (W_RETURN_FROM @ W_COMMISSION) ''cash'' ''commission'' True,
      ApplyCost (W_RETURN_FROM @ W_COMMISSION @ W_CREDIT) ''credit'' ''commission'' True,
      ApplyCost W_SHIPPING ''cash'' ''shipping'' False,
      ApplyCost (W_SHIPPING @ W_CREDIT) ''credit'' ''shipping'' False,
      ApplyCost (W_RETURN_FROM @ W_SHIPPING) ''cash'' ''shipping'' True,
      ApplyCost (W_RETURN_FROM @ W_SHIPPING @ W_CREDIT) ''credit'' ''shipping'' True,
      ApplyCost W_PROCESSING ''cash'' ''processing'' False,
      ApplyCost (W_PROCESSING @ W_CREDIT) ''credit'' ''processing'' False,
      ApplyCost (W_RETURN_FROM @ W_PROCESSING) ''cash'' ''processing'' True,
      ApplyCost (W_RETURN_FROM @ W_PROCESSING @ W_CREDIT) ''credit'' ''processing'' True,
      ApplyCost W_PLATFORM_DEV ''credit'' ''platform_dev'' False,
      ApplyCost (W_RETURN_FROM @ W_PLATFORM_DEV) ''credit'' ''platform_dev'' True,
      ApplyCost W_CUSTOMER_RETURN_COST ''cash'' ''shipping'' False]"

text \<open>A ledger line with a sale of 1000 and a commission of 100.\<close>

definition example_sale_line :: ParsedRow where
  "example_sale_line =
     \<lparr>pr_sale_type = ''cash'', pr_order_id = [49], pr_dkpc = [65], pr_title = [88],
      pr_sale_amount = 1000, pr_is_return = False, pr_commission_amount = 100,
      pr_shipping_fee = 0, pr_processing_fee = 0, pr_platform_dev_revenue = 0\<rparr>"

text \<open>A ledger line whose sales and returns cancel, with a commission of 100.\<close>

definition example_cancelled_line :: ParsedRow where
  "example_cancelled_line =
     \<lparr>pr_sale_type = ''cash'', pr_order_id = [50], pr_dkpc = [66], pr_title = [89],
      pr_sale_amount = 0, pr_is_return = False, pr_commission_amount = 100,
      pr_shipping_fee = 0, pr_processing_fee = 0, pr_platform_dev_revenue = 0\<rparr>"

text \<open>A store with one earlier row of the invoice and no tier.\<close>

definition example_store :: store where
  "example_store =
     \<lparr>invoice_rows = [finalize_row example_sale_line], inv_status = ''done'',
      inv_error_message = [], inv_row_count = 1, inv_processing_price = 0,
      pricing_tiers = []\<rparr>"

section \<open>Properties of the numeric normalizer\<close>

lemma normalize_number_text_total:
  "\<exists>n. normalize_number (CStr s) = Inr n"
  by (simp add: normalize_number_def normalize_number_impl_def)

lemma normalize_number_not_infinite:
  "val \<noteq> CFloat PosInf \<Longrightarrow> val \<noteq> CFloat NegInf \<Longrightarrow> \<exists>n. normalize_number val = Inr n"
  by (simp add: normalize_number_def normalize_number_impl_def
      split: cell.splits pyfloat.splits)

lemma normalize_number_defaults:
  "normalize_number CNone = Inr 0"
  "normalize_number (CFloat NaN) = Inr 0"
  "normalize_number (CStr []) = Inr 0"
  by (simp_all add: normalize_number_def normalize_number_impl_def normalize_text_def
      remove_char_def translate_def strip_def re_sub_non_digits_def)

text \<open>
  The equalities the specification lists: Persian digits with the Arabic thousands
  separator, Arabic-Indic digits, and a leading minus sign.
\<close>

lemma normalize_text_persian:
  "normalize_text [1777, 1778, 1779, 1644, 1780, 1781, 1782] = 123456"
  unfolding normalize_text_def
  apply (simp add: remove_char_def translate_def PERSIAN_DIGITS_def ARABIC_DIGITS_def)
  apply (simp add: strip_def isspace_def)
  apply (simp add: re_sub_non_digits_def is_digit_def digit_value_def nd_zeros_def)
  apply (simp add: py_int_def strip_def isspace_def parse_digits_def int_max_str_digits_def
      digit_value_def nd_zeros_def)
  done

lemma normalize_text_arabic:
  "normalize_text [1633, 1634, 1635] = 123"
  unfolding normalize_text_def
  apply (simp add: remove_char_def translate_def PERSIAN_DIGITS_def ARABIC_DIGITS_def)
  apply (simp add: strip_def isspace_def)
  apply (simp add: re_sub_non_digits_def is_digit_def digit_value_def nd_zeros_def)
  apply (simp add: py_int_def strip_def isspace_def parse_digits_def int_max_str_digits_def
      digit_value_def nd_zeros_def)
  done

lemma normalize_text_negative:
  "normalize_text [45, 49, 50, 51] = - 123"
  unfolding normalize_text_def
  apply (simp add: remove_char_def translate_def PERSIAN_DIGITS_def ARABIC_DIGITS_def)
  apply (simp add: strip_def isspace_def)
  apply (simp add: re_sub_non_digits_def is_digit_def digit_value_def nd_zeros_def)
  apply (simp add: py_int_def strip_def isspace_def parse_digits_def int_max_str_digits_def
      digit_value_def nd_zeros_def)
  done

lemma normalize_number_listed_equalities:
  "normalize_number (CStr [1777, 1778, 1779, 1644, 1780, 1781, 1782]) = Inr 123456"
  "normalize_number (CStr [1633, 1634, 1635]) = Inr 123"
  "normalize_number (CStr [45, 49, 50, 51]) = Inr (- 123)"
  by (simp_all add: normalize_number_def normalize_number_impl_def normalize_text_persian
      normalize_text_arabic normalize_text_negative)

text \<open>
  Claim C8: \<^verbatim>\<open>normalize\<close> is total, returning an integer for every input without
  raising. The code returns an integer for \<^verbatim>\<open>None\<close>, every \<^verbatim>\<open>int\<close>, every text,
  not-a-number and every finite float (the lemmas above), but for a float infinity
  \<^verbatim>\<open>int(round(val))\<close> raises \<^verbatim>\<open>OverflowError\<close>, which no handler of the function
  catches: the guard before it only excludes not-a-number.
\<close>

theorem normalize_number_raises_on_infinity:
  "normalize_number (CFloat PosInf) = Inl OverflowError"
  by (simp add: normalize_number_def normalize_number_impl_def)

section \<open>Properties of the pricing tier resolver\<close>

lemma first_matching_price_find:
  "first_matching_price n ts =
     (case find (\<lambda>t. covers t n) ts of None \<Rightarrow> 0 | Some t \<Rightarrow> int (price_per_invoice t))"
  by (induction ts) (auto simp: covers_def split: option.splits)

lemma find_sorted_least:
  "sorted (map f ts) \<Longrightarrow> find P ts = Some t \<Longrightarrow> u \<in> set ts \<Longrightarrow> P u \<Longrightarrow> f t \<le> f u"
  by (induction ts) (auto split: if_splits)

lemma find_Some_in: "find P ts = Some t \<Longrightarrow> t \<in> set ts \<and> P t"
  by (induction ts) (auto split: if_splits)

lemma price_nonneg: "0 \<le> calculate_price_for_row_count table n"
  by (simp add: calculate_price_for_row_count_def first_matching_price_find split: option.splits)

lemma price_zero_above:
  assumes "no_unbounded_tier table" "above_all_tiers table n"
  shows "calculate_price_for_row_count table n = 0"
proof -
  have "\<not> covers t n" if "t \<in> set table" for t
    using that assms
    by (auto simp: no_unbounded_tier_def above_all_tiers_def covers_def list_all_iff
        split: option.splits)
  then have "find (\<lambda>t. covers t n) (order_by_min_rows table) = None"
    by (simp add: find_None_iff order_by_min_rows_def)
  then show ?thesis
    by (simp add: calculate_price_for_row_count_def first_matching_price_find)
qed

lemma price_monotone:
  assumes asc: "fees_ascending table" and cov: "covered table m" and le: "n \<le> m"
  shows "calculate_price_for_row_count table n \<le> calculate_price_for_row_count table m"
proof (cases "n \<le> 0")
  case True
  then show ?thesis using price_nonneg [of table m]
    by (simp add: calculate_price_for_row_count_def)
next
  case False
  let ?ts = "order_by_min_rows table"
  have srt: "sorted (map min_rows ?ts)" and st: "set ?ts = set table"
    by (simp_all add: order_by_min_rows_def)
  from cov obtain t2' where "t2' \<in> set ?ts" "covers t2' m"
    by (auto simp: covered_def list_ex_iff st)
  then obtain t2 where f2: "find (\<lambda>t. covers t m) ?ts = Some t2"
    by (cases "find (\<lambda>t. covers t m) ?ts") (auto simp: find_None_iff)
  show ?thesis
  proof (cases "find (\<lambda>t. covers t n) ?ts")
    case None
    with False le show ?thesis
      by (simp add: calculate_price_for_row_count_def first_matching_price_find f2)
  next
    case (Some t1)
    have c1: "t1 \<in> set ?ts" "covers t1 n" using find_Some_in [OF Some] by simp_all
    have c2: "t2 \<in> set ?ts" "covers t2 m" using find_Some_in [OF f2] by simp_all
    have "min_rows t1 \<le> min_rows t2"
    proof (rule ccontr)
      assume "\<not> min_rows t1 \<le> min_rows t2"
      then have lt: "min_rows t2 < min_rows t1" by simp
      with c1 c2 le have "covers t2 n"
        by (auto simp: covers_def split: option.splits)
      from find_sorted_least [OF srt Some c2(1) this] lt show False by simp
    qed
    with asc c1(1) c2(1) have "price_per_invoice t1 \<le> price_per_invoice t2"
      by (auto simp: fees_ascending_def list_all_iff st)
    with False le show ?thesis
      by (simp add: calculate_price_for_row_count_def first_matching_price_find f2 Some)
  qed
qed

lemmas tier_eval = calculate_price_for_row_count_def order_by_min_rows_def covers_def
  overlaps_def no_unbounded_tier_def above_all_tiers_def fees_ascending_def covered_def

text \<open>
  Claim C6, as stated: for every tier table with non-overlapping ranges the price is
  monotonic non-decreasing in the row count, and it is 0 for a count of at most 0 and
  for a count above every tier when no tier is unbounded. The two halves contradict
  each other on any table with a positive fee and no unbounded tier: with the single
  tier 1 to 500 at 490000, 500 rows cost 490000 and 501 rows cost 0.
\<close>

theorem price_not_monotone_counterexample:
  "non_overlapping [\<lparr>min_rows = 1, max_rows = Some 500, price_per_invoice = 490000\<rparr>] \<and>
   (500 :: int) \<le> 501 \<and>
   \<not> calculate_price_for_row_count
        [\<lparr>min_rows = 1, max_rows = Some 500, price_per_invoice = 490000\<rparr>] 500
     \<le> calculate_price_for_row_count
        [\<lparr>min_rows = 1, max_rows = Some 500, price_per_invoice = 490000\<rparr>] 501"
  by (simp add: tier_eval)

text \<open>
  Claim C6, amended: for every tier table (with non-overlapping ranges or not) the price
  is 0 for a row count of at most 0, and 0 for a row count above every tier's
  \<^verbatim>\<open>max_rows\<close> when no tier is unbounded; and for \<open>n \<le> m\<close> the price of \<open>n\<close> is at most
  the price of \<open>m\<close> whenever the fees do not fall as \<^verbatim>\<open>min_rows\<close> grows and \<open>m\<close> lies
  in the range of some tier.
\<close>

theorem price_for_row_count_amended:
  "(n \<le> 0 \<longrightarrow> calculate_price_for_row_count table n = 0) \<and>
   (no_unbounded_tier table \<and> above_all_tiers table n \<longrightarrow>
      calculate_price_for_row_count table n = 0) \<and>
   (fees_ascending table \<and> covered table m \<and> n \<le> m \<longrightarrow>
      calculate_price_for_row_count table n \<le> calculate_price_for_row_count table m)"
  using price_zero_above [of table n] price_monotone [of table m n]
  by (simp add: calculate_price_for_row_count_def)

theorem price_for_row_count_amended_witness:
  "(0 :: int) \<le> 0 \<and>
   calculate_price_for_row_count
     [\<lparr>min_rows = 1, max_rows = Some 500, price_per_invoice = 490000\<rparr>,
      \<lparr>min_rows = 501, max_rows = Some 1000, price_per_invoice = 890000\<rparr>] 0 = 0 \<and>
   no_unbounded_tier
     [\<lparr>min_rows = 1, max_rows = Some 500, price_per_invoice = 490000\<rparr>,
      \<lparr>min_rows = 501, max_rows = Some 1000, price_per_invoice = 890000\<rparr>] \<and>
   above_all_tiers
     [\<lparr>min_rows = 1, max_rows = Some 500, price_per_invoice = 490000\<rparr>,
      \<lparr>min_rows = 501, max_rows = Some 1000, price_per_invoice = 890000\<rparr>] 2000 \<and>
   calculate_price_for_row_count
     [\<lparr>min_rows = 1, max_rows = Some 500, price_per_invoice = 490000\<rparr>,
      \<lparr>min_rows = 501, max_rows = Some 1000, price_per_invoice = 890000\<rparr>] 2000 = 0 \<and>
   fees_ascending
     [\<lparr>min_rows = 1, max_rows = Some 500, price_per_invoice = 490000\<rparr>,
      \<lparr>min_rows = 501, max_rows = Some 1000, price_per_invoice = 890000\<rparr>] \<and>
   covered
     [\<lparr>min_rows = 1, max_rows = Some 500, price_per_invoice = 490000\<rparr>,
      \<lparr>min_rows = 501, max_rows = Some 1000, price_per_invoice = 890000\<rparr>] 750 \<and>
   (100 :: int) \<le> 750 \<and>
   calculate_price_for_row_count
     [\<lparr>min_rows = 1, max_rows = Some 500, price_per_invoice = 490000\<rparr>,
      \<lparr>min_rows = 501, max_rows = Some 1000, price_per_invoice = 890000\<rparr>] 100
   \<le> calculate_price_for_row_count
     [\<lparr>min_rows = 1, max_rows = Some 500, price_per_invoice = 490000\<rparr>,
      \<lparr>min_rows = 501, max_rows = Some 1000, price_per_invoice = 890000\<rparr>] 750"
  using
    price_for_row_count_amended
      [of 0 "[\<lparr>min_rows = 1, max_rows = Some 500, price_per_invoice = 490000\<rparr>,
              \<lparr>min_rows = 501, max_rows = Some 1000, price_per_invoice = 890000\<rparr>]" 0]
    price_for_row_count_amended
      [of 2000 "[\<lparr>min_rows = 1, max_rows = Some 500, price_per_invoice = 490000\<rparr>,
              \<lparr>min_rows = 501, max_rows = Some 1000, price_per_invoice = 890000\<rparr>]" 2000]
    price_for_row_count_amended
      [of 100 "[\<lparr>min_rows = 1, max_rows = Some 500, price_per_invoice = 490000\<rparr>,
              \<lparr>min_rows = 501, max_rows = Some 1000, price_per_invoice = 890000\<rparr>]" 750]
  by (simp add: no_unbounded_tier_def above_all_tiers_def fees_ascending_def covered_def
      covers_def)

text \<open>The scenario of the specification and of the repository's tests.\<close>

lemma price_scenario:
  "calculate_price_for_row_count
     [\<lparr>min_rows = 1, max_rows = Some 500, price_per_invoice = 490000\<rparr>,
      \<lparr>min_rows = 501, max_rows = Some 1000, price_per_invoice = 890000\<rparr>,
      \<lparr>min_rows = 1001, max_rows = None, price_per_invoice = 1290000\<rparr>] 750 = 890000"
  by (simp add: tier_eval)

section \<open>Properties of the profit recalculation\<close>

text \<open>
  Claim C9: profit recalculation is idempotent. For every set of rows, with whatever
  purchase prices they carry, a second recalculation leaves every row (and so every
  profit and tax amount) as the first one left it.
\<close>

theorem recalc_profit_idempotent:
  "recalc_profit (recalc_profit rows) = recalc_profit rows"
  by (simp add: recalc_profit_def recalc_row_def Let_def)

section \<open>The sheet readers as folds of contributions\<close>

lemma add_amount_cost: "add_amount (CostOf kind) a = add_cost kind a"
  by (rule ext) (simp add: add_amount_def)

lemma add_amount_sale:
  "add_amount SaleAmount a = (\<lambda>parsed. parsed\<lparr>pr_sale_amount := pr_sale_amount parsed + a\<rparr>)"
  by (rule ext) (simp add: add_amount_def)

lemma py_str_CStr: "py_str e (CStr s) = s"
  by (simp add: py_str_def)

lemma sales_row_step_eq:
  "sales_row_step e sale_type irs io idk it ia r (prs, n) =
     (case sales_contribution e sale_type irs io idk it ia r of
        Inl err \<Rightarrow> Inl err
      | Inr None \<Rightarrow> Inr (prs, n)
      | Inr (Some c) \<Rightarrow> Inr (apply_contribution c prs, n + 1))"
  by (auto simp: sales_row_step_def sales_contribution_def apply_contribution_def
      get_or_create_def add_amount_sale py_str_CStr Let_def split: sum.splits option.splits)

lemma cost_row_step_eq:
  "cost_row_step e sale_type kind sign io idk ia r (prs, n) =
     (case cost_contribution e sale_type kind sign io idk ia r of
        Inl err \<Rightarrow> Inl err
      | Inr None \<Rightarrow> Inr (prs, n)
      | Inr (Some c) \<Rightarrow> Inr (apply_contribution c prs, n + 1))"
  by (auto simp: cost_row_step_def cost_contribution_def apply_contribution_def
      add_amount_cost Let_def split: sum.splits option.splits)

lemma for_rows_collect:
  assumes step: "\<And>r prs n. body r (prs, n) =
     (case contrib r of
        Inl err \<Rightarrow> Inl err
      | Inr None \<Rightarrow> Inr (prs, n)
      | Inr (Some c) \<Rightarrow> Inr (apply_contribution c prs, n + 1))"
  shows "for_rows body rs (prs, n) =
     (case collect (map contrib rs) of
        Inl err \<Rightarrow> Inl err
      | Inr cs \<Rightarrow> Inr (fold apply_contribution cs prs, n + length cs))"
proof (induction rs arbitrary: prs n)
  case Nil
  then show ?case by simp
next
  case (Cons r rs)
  show ?case
  proof (cases "contrib r")
    case (Inl err)
    then show ?thesis by (simp add: step)
  next
    case (Inr v)
    show ?thesis
    proof (cases v)
      case None
      with Inr show ?thesis by (simp add: step Cons.IH split: sum.splits)
    next
      case (Some c)
      with Inr show ?thesis by (simp add: step Cons.IH split: sum.splits)
    qed
  qed
qed

lemma run_call_eq:
  "\<exists>l. run_call e wb call (prs, lg) =
     (case sheet_contributions e wb call of
        Inl err \<Rightarrow> Inl err
      | Inr cs \<Rightarrow> Inr (fold apply_contribution cs prs, lg @ [l]))"
proof (cases call)
  case (ReadSales sheet_name sale_type irs)
  show ?thesis
    unfolding ReadSales
    by (auto simp: read_sales_sheet_def Let_def for_rows_collect [OF sales_row_step_eq]
        split: option.splits sum.splits)
next
  case (ApplyCost sheet_name sale_type kind irs)
  show ?thesis
    unfolding ApplyCost
    by (auto simp: apply_cost_sheet_def Let_def for_rows_collect [OF cost_row_step_eq]
        split: option.splits sum.splits)
qed

lemma for_rows_run_call:
  "\<exists>ls. for_rows (run_call e wb) calls (prs, lg) =
     (case all_contributions e wb calls of
        Inl err \<Rightarrow> Inl err
      | Inr cs \<Rightarrow> Inr (fold apply_contribution cs prs, lg @ ls))"
proof (induction calls arbitrary: prs lg)
  case Nil
  show ?case by simp
next
  case (Cons call calls)
  obtain l where l: "run_call e wb call (prs, lg) =
     (case sheet_contributions e wb call of
        Inl err \<Rightarrow> Inl err
      | Inr cs \<Rightarrow> Inr (fold apply_contribution cs prs, lg @ [l]))"
    using run_call_eq by blast
  show ?case
  proof (cases "sheet_contributions e wb call")
    case (Inl err)
    with l show ?thesis by simp
  next
    case (Inr cs)
    obtain ls where ls: "for_rows (run_call e wb) calls
        (fold apply_contribution cs prs, lg @ [l]) =
       (case all_contributions e wb calls of
          Inl err \<Rightarrow> Inl err
        | Inr cs' \<Rightarrow>
            Inr (fold apply_contribution cs' (fold apply_contribution cs prs), (lg @ [l]) @ ls))"
      using Cons.IH by blast
    show ?thesis
    proof (cases "all_contributions e wb calls")
      case (Inl err)
      with l Inr ls show ?thesis by simp
    next
      case (Inr cs')
      with l \<open>sheet_contributions e wb call = Inr cs\<close> ls
      have "for_rows (run_call e wb) (call # calls) (prs, lg) =
        (case all_contributions e wb (call # calls) of
          Inl err \<Rightarrow> Inl err
        | Inr cs'' \<Rightarrow> Inr (fold apply_contribution cs'' prs, lg @ (l # ls)))"
        by simp
      then show ?thesis by blast
    qed
  qed
qed

lemma run_calls_contributions:
  "\<exists>ls. run_calls e wb calls =
     (case all_contributions e wb calls of
        Inl err \<Rightarrow> Inl err
      | Inr cs \<Rightarrow> Inr (fold apply_contribution cs [], ls))"
  using for_rows_run_call [of e wb calls "[]" "[]"]
  by (auto simp: run_calls_def split: sum.splits)

declare sheet_contributions.simps [simp del]

section \<open>The ledger under one contribution and under many\<close>

lemma key_of_add_amount: "key_of (add_amount t a pr) = key_of pr"
  by (cases t) (simp_all add: add_amount_def add_cost_def key_of_def)

lemma amounts_of_add_amount:
  "amounts_of (add_amount (c_target c) (c_amount c) pr) =
     add_amounts (amounts_of pr) (contribution_amounts c)"
  by (cases "c_target c")
     (simp_all add: add_amount_def add_cost_def amounts_of_def add_amounts_def
        contribution_amounts_def)

lemma title_add_amount:
  "pr_title (add_amount t a pr) = pr_title pr"
  "pr_is_return (add_amount t a pr) = pr_is_return pr"
  by (cases t; simp add: add_amount_def add_cost_def)+

lemma key_of_new: "key_of (new_parsed_row st oid d t r) = (st, oid, d)"
  by (simp add: key_of_def new_parsed_row_def)

lemma amounts_of_new: "amounts_of (new_parsed_row st oid d t r) = (0, 0, 0, 0, 0)"
  by (simp add: amounts_of_def new_parsed_row_def)

lemma rows_map_get_key: "rows_map_get prs k = Some p \<Longrightarrow> key_of p = k \<and> p \<in> set prs"
  unfolding rows_map_get_def by (induction prs) (auto split: if_splits)

lemma rows_map_get_None: "rows_map_get prs k = None \<longleftrightarrow> k \<notin> key_of ` set prs"
  unfolding rows_map_get_def by (auto simp: find_None_iff)

lemma rows_map_get_append:
  "rows_map_get (prs @ [x]) k =
     (case rows_map_get prs k of
        Some p \<Rightarrow> Some p
      | None \<Rightarrow> if key_of x = k then Some x else None)"
  unfolding rows_map_get_def by (induction prs) auto

lemma rows_map_get_update:
  assumes "\<And>p. key_of (f p) = key_of p"
  shows "rows_map_get (update_row k f prs) k' =
     map_option (\<lambda>p. if key_of p = k then f p else p) (rows_map_get prs k')"
  unfolding rows_map_get_def update_row_def using assms by (induction prs) auto

lemma rows_map_get_apply:
  "rows_map_get (apply_contribution c prs) k =
     (case rows_map_get prs k of
        Some p \<Rightarrow>
          Some (if c_key c = k then add_amount (c_target c) (c_amount c) p else p)
      | None \<Rightarrow>
          if c_key c = k
          then Some (add_amount (c_target c) (c_amount c)
                 (new_parsed_row (fst k) (fst (snd k)) (snd (snd k)) (c_title c) (c_return c)))
          else None)"
proof (cases "rows_map_get prs (c_key c)")
  case None
  then show ?thesis
    by (auto simp: apply_contribution_def rows_map_get_update key_of_add_amount
        rows_map_get_append key_of_new split: option.splits dest: rows_map_get_key)
next
  case (Some q)
  then show ?thesis
    by (auto simp: apply_contribution_def rows_map_get_update key_of_add_amount
        split: option.splits dest: rows_map_get_key)
qed

lemma totals_apply: "totals (apply_contribution c prs) = add_totals c (totals prs)"
  by (rule ext)
     (auto simp: totals_def add_totals_def rows_map_get_apply amounts_of_add_amount
        amounts_of_new add_amounts_def split: option.splits)

lemma totals_fold:
  "totals (fold apply_contribution cs prs) = fold add_totals cs (totals prs)"
  by (induction cs arbitrary: prs) (simp_all add: totals_apply)

lemma add_amounts_swap:
  "add_amounts (add_amounts v a) b = add_amounts (add_amounts v b) a"
  by (simp add: add_amounts_def split: prod.splits)

lemma add_totals_commute: "add_totals c \<circ> add_totals d = add_totals d \<circ> add_totals c"
proof (rule ext, rule ext)
  fix m k
  show "(add_totals c \<circ> add_totals d) m k = (add_totals d \<circ> add_totals c) m k"
    by (cases "c_key c = c_key d")
       (auto simp: add_totals_def add_amounts_swap split: option.splits)
qed

lemma fold_add_totals_perm:
  "mset cs = mset cs' \<Longrightarrow> fold add_totals cs = fold add_totals cs'"
  by (rule fold_multiset_equiv) (simp_all add: add_totals_commute)

lemma rows_map_get_Nil: "rows_map_get [] k = None"
  by (simp add: rows_map_get_def)

lemma map_key_update: "map key_of (update_row k (add_amount t a) prs) = map key_of prs"
  by (induction prs) (simp_all add: update_row_def key_of_add_amount)

lemma distinct_apply:
  "distinct (map key_of prs) \<Longrightarrow> distinct (map key_of (apply_contribution c prs))"
  by (auto simp: apply_contribution_def map_key_update key_of_new rows_map_get_None)

lemma distinct_fold:
  "distinct (map key_of prs) \<Longrightarrow> distinct (map key_of (fold apply_contribution cs prs))"
  by (induction cs arbitrary: prs) (simp_all add: distinct_apply)

lemma rows_map_get_member:
  "distinct (map key_of prs) \<Longrightarrow> pr \<in> set prs \<Longrightarrow> rows_map_get prs (key_of pr) = Some pr"
  unfolding rows_map_get_def by (induction prs) (auto simp: image_iff)

lemma title_fold:
  "map_option pr_title (rows_map_get (fold apply_contribution cs prs) k) =
     (case rows_map_get prs k of
        Some p \<Rightarrow> Some (pr_title p)
      | None \<Rightarrow> map_option c_title (find (\<lambda>c. c_key c = k) cs))"
proof (induction cs arbitrary: prs)
  case Nil
  show ?case by (simp split: option.splits)
next
  case (Cons c cs)
  show ?case
    by (simp add: Cons.IH rows_map_get_apply title_add_amount new_parsed_row_def
        split: option.splits)
qed

lemma is_return_fold:
  "map_option pr_is_return (rows_map_get (fold apply_contribution cs prs) k) =
     (case rows_map_get prs k of
        Some p \<Rightarrow> Some (pr_is_return p)
      | None \<Rightarrow> map_option c_return (find (\<lambda>c. c_key c = k) cs))"
proof (induction cs arbitrary: prs)
  case Nil
  show ?case by (simp split: option.splits)
next
  case (Cons c cs)
  show ?case
    by (simp add: Cons.IH rows_map_get_apply title_add_amount new_parsed_row_def
        split: option.splits)
qed

lemma run_calls_rows:
  "map_sum id fst (run_calls e wb calls) = Inr prs \<Longrightarrow>
     all_contributions e wb calls = Inr (contributions_of e wb calls) \<and>
     prs = fold apply_contribution (contributions_of e wb calls) []"
  using run_calls_contributions [of e wb calls]
  by (auto simp: contributions_of_def split: sum.splits)

lemma rows_of_contributions:
  "all_contributions e wb calls = Inr cs \<Longrightarrow>
     map_sum id fst (run_calls e wb calls) = Inr (fold apply_contribution cs [])"
  using run_calls_contributions [of e wb calls] by auto

lemma sale_of_add_totals:
  "c_key c = k \<longrightarrow> c_target c \<noteq> SaleAmount \<Longrightarrow> sale_of (add_totals c m k) = sale_of (m k)"
  by (cases "c_target c")
     (auto simp: sale_of_def add_totals_def add_amounts_def contribution_amounts_def
        split: option.splits prod.splits)

lemma sale_of_fold:
  "\<forall>c\<in>set cs. c_key c = k \<longrightarrow> c_target c \<noteq> SaleAmount \<Longrightarrow>
     sale_of (fold add_totals cs m k) = sale_of (m k)"
  by (induction cs arbitrary: m) (simp_all add: sale_of_add_totals)

lemma all_contributions_isl:
  "isl (all_contributions e wb calls) \<longleftrightarrow> (\<exists>c\<in>set calls. isl (sheet_contributions e wb c))"
  by (induction calls) (auto split: sum.splits)

lemma all_contributions_concat:
  "all_contributions e wb calls = Inr cs \<Longrightarrow>
     cs = concat (map (\<lambda>c. projr (sheet_contributions e wb c)) calls)"
  by (induction calls arbitrary: cs) (auto split: sum.splits)

lemma sum_list_mset_perm:
  fixes f :: "'a \<Rightarrow> 'b multiset"
  shows "mset xs = mset ys \<Longrightarrow> sum_list (map f xs) = sum_list (map f ys)"
proof -
  assume "mset xs = mset ys"
  then have "sum_mset (image_mset f (mset xs)) = sum_mset (image_mset f (mset ys))" by simp
  then show ?thesis by (simp flip: mset_map add: sum_mset_sum_list)
qed

lemma run_calls_isl:
  "isl (run_calls e wb calls) \<longleftrightarrow> isl (all_contributions e wb calls)"
  using run_calls_contributions [of e wb calls]
  by (cases "all_contributions e wb calls") auto

section \<open>The worked inputs, evaluated\<close>

lemmas word_defs = W_SALE_def W_RETURN_FROM_def W_CREDIT_def W_COMMISSION_def W_SHIPPING_def
  W_PROCESSING_def W_PLATFORM_DEV_def W_CUSTOMER_RETURN_COST_def

lemma strip_no_space:
  assumes "s \<noteq> []" "\<not> isspace (hd s)" "\<not> isspace (last s)"
  shows "strip s = s"
proof -
  from assms have 1: "dropWhile isspace s = s" by (cases s) simp_all
  from assms have "dropWhile isspace (rev s) = rev s"
    by (cases "rev s") (simp_all add: last_rev [symmetric] hd_rev)
  with 1 show ?thesis by (simp add: strip_def)
qed

lemma strips:
  "strip [1588, 1605, 1575, 1585, 1607, 32, 1587, 1601, 1575, 1585, 1588] =
     [1588, 1605, 1575, 1585, 1607, 32, 1587, 1601, 1575, 1585, 1588]"
  "strip [68, 75, 80, 67] = [68, 75, 80, 67]"
  "strip [100, 107, 112, 99] = [100, 107, 112, 99]"
  "strip [1593, 1606, 1608, 1575, 1606, 32, 1578, 1606, 1608, 1593] =
     [1593, 1606, 1608, 1575, 1606, 32, 1578, 1606, 1608, 1593]"
  "strip [1605, 1576, 1604, 1594] = [1605, 1576, 1604, 1594]"
  by (simp_all add: strip_no_space isspace_def)

lemma header_of_example:
  "get_header_row e [example_header, [a, b, c, d]] =
     [[1588, 1605, 1575, 1585, 1607, 32, 1587, 1601, 1575, 1585, 1588],
      [68, 75, 80, 67],
      [1593, 1606, 1608, 1575, 1606, 32, 1578, 1606, 1608, 1593],
      [1605, 1576, 1604, 1594]]"
  unfolding get_header_row_def iter_rows_def max_column_def example_header_def
  by (simp add: py_str_CStr strips)

lemma iter_rows_example:
  "iter_rows [example_header, [a, b, c, d]] = [example_header, [a, b, c, d]]"
  by (simp add: iter_rows_def max_column_def example_header_def)

lemma lowers:
  assumes "env_lower e = ascii_lower"
  shows
  "env_lower e [1588, 1605, 1575, 1585, 1607, 32, 1587, 1601, 1575, 1585, 1588] =
     [1588, 1605, 1575, 1585, 1607, 32, 1587, 1601, 1575, 1585, 1588]"
  "env_lower e [1588, 1606, 1575, 1587, 1607, 32, 1587, 1601, 1575, 1585, 1588] =
     [1588, 1606, 1575, 1587, 1607, 32, 1587, 1601, 1575, 1585, 1588]"
  "env_lower e [1705, 1583, 32, 1578, 1606, 1608, 1593] =
     [1705, 1583, 32, 1578, 1606, 1608, 1593]"
  "env_lower e [68, 75, 80, 67] = [100, 107, 112, 99]"
  "env_lower e [100, 107, 112, 99] = [100, 107, 112, 99]"
  "env_lower e [1593, 1606, 1608, 1575, 1606, 32, 1578, 1606, 1608, 1593] =
     [1593, 1606, 1608, 1575, 1606, 32, 1578, 1606, 1608, 1593]"
  "env_lower e [1593, 1606, 1608, 1575, 1606, 32, 1705, 1575, 1604, 1575] =
     [1593, 1606, 1608, 1575, 1606, 32, 1705, 1575, 1604, 1575]"
  "env_lower e [1605, 1576, 1604, 1594, 32, 1606, 1607, 1575, 1740, 1740] =
     [1605, 1576, 1604, 1594, 32, 1606, 1607, 1575, 1740, 1740]"
  "env_lower e [1605, 1576, 1604, 1594, 32, 1705, 1604] =
     [1605, 1576, 1604, 1594, 32, 1705, 1604]"
  "env_lower e [1605, 1576, 1604, 1594] = [1605, 1576, 1604, 1594]"
  by (simp_all add: assms ascii_lower_def)

lemma find_cols_example:
  assumes "env_lower e = ascii_lower"
  shows
  "find_col e
     [[1588, 1605, 1575, 1585, 1607, 32, 1587, 1601, 1575, 1585, 1588],
      [68, 75, 80, 67],
      [1593, 1606, 1608, 1575, 1606, 32, 1578, 1606, 1608, 1593],
      [1605, 1576, 1604, 1594]] KW_ORDER = Some 0"
  "find_col e
     [[1588, 1605, 1575, 1585, 1607, 32, 1587, 1601, 1575, 1585, 1588],
      [68, 75, 80, 67],
      [1593, 1606, 1608, 1575, 1606, 32, 1578, 1606, 1608, 1593],
      [1605, 1576, 1604, 1594]] KW_DKPC = Some 1"
  "find_col e
     [[1588, 1605, 1575, 1585, 1607, 32, 1587, 1601, 1575, 1585, 1588],
      [68, 75, 80, 67],
      [1593, 1606, 1608, 1575, 1606, 32, 1578, 1606, 1608, 1593],
      [1605, 1576, 1604, 1594]] KW_TITLE = Some 2"
  "find_col e
     [[1588, 1605, 1575, 1585, 1607, 32, 1587, 1601, 1575, 1585, 1588],
      [68, 75, 80, 67],
      [1593, 1606, 1608, 1575, 1606, 32, 1578, 1606, 1608, 1593],
      [1605, 1576, 1604, 1594]] KW_AMOUNT = Some 3"
  unfolding find_col_def KW_ORDER_def KW_DKPC_def KW_TITLE_def KW_AMOUNT_def
  by (simp_all add: lowers [OF assms] strips)

lemma example_sales_sheet:
  assumes "env_lower e = ascii_lower"
      and "map_of wb name = Some [example_header, [a, b, c, d]]"
  shows "sheet_contributions e wb (ReadSales name st irs) =
           collect [sales_contribution e st irs 0 1 (Some 2) 3 [a, b, c, d]]"
  by (simp add: sheet_contributions.simps assms(2) header_of_example find_cols_example [OF assms(1)] iter_rows_example)

lemma example_cost_sheet:
  assumes "env_lower e = ascii_lower"
      and "map_of wb name = Some [example_header, [a, b, c, d]]"
  shows "sheet_contributions e wb (ApplyCost name st kind irs) =
           collect [cost_contribution e st kind (if irs then - 1 else 1) 0 1 3 [a, b, c, d]]"
  by (simp add: sheet_contributions.simps assms(2) header_of_example find_cols_example [OF assms(1)] iter_rows_example)

lemma absent_sheet:
  "map_of wb name = None \<Longrightarrow> sheet_contributions e wb (ReadSales name st irs) = Inr []"
  "map_of wb name = None \<Longrightarrow> sheet_contributions e wb (ApplyCost name st kind irs) = Inr []"
  by (simp_all add: sheet_contributions.simps)

lemma wb_partial_return_sheets:
  "map_of wb_partial_return W_SALE =
     Some [example_header, [CStr [49], CStr [65], CStr [88], CInt 100]]"
  "map_of wb_partial_return (W_RETURN_FROM @ W_SALE) =
     Some [example_header, [CStr [49], CStr [65], CStr [89], CInt 30]]"
  "map_of wb_partial_return (W_SALE @ W_CREDIT) = None"
  "map_of wb_partial_return (W_RETURN_FROM @ W_SALE @ W_CREDIT) = None"
  "map_of wb_partial_return W_COMMISSION = None"
  "map_of wb_partial_return (W_COMMISSION @ W_CREDIT) = None"
  "map_of wb_partial_return (W_RETURN_FROM @ W_COMMISSION) = None"
  "map_of wb_partial_return (W_RETURN_FROM @ W_COMMISSION @ W_CREDIT) = None"
  "map_of wb_partial_return W_SHIPPING = None"
  "map_of wb_partial_return (W_SHIPPING @ W_CREDIT) = None"
  "map_of wb_partial_return (W_RETURN_FROM @ W_SHIPPING) = None"
  "map_of wb_partial_return (W_RETURN_FROM @ W_SHIPPING @ W_CREDIT) = None"
  "map_of wb_partial_return W_PROCESSING = None"
  "map_of wb_partial_return (W_PROCESSING @ W_CREDIT) = None"
  "map_of wb_partial_return (W_RETURN_FROM @ W_PROCESSING) = None"
  "map_of wb_partial_return (W_RETURN_FROM @ W_PROCESSING @ W_CREDIT) = None"
  "map_of wb_partial_return W_PLATFORM_DEV = None"
  "map_of wb_partial_return (W_RETURN_FROM @ W_PLATFORM_DEV) = None"
  "map_of wb_partial_return W_CUSTOMER_RETURN_COST = None"
  by (simp_all add: wb_partial_return_def word_defs)

lemma wb_sale_and_commission_sheets:
  "map_of wb_sale_and_commission W_SALE =
     Some [example_header, [CStr [49], CStr [65], CStr [88], CInt 100]]"
  "map_of wb_sale_and_commission (W_RETURN_FROM @ W_SALE) = None"
  "map_of wb_sale_and_commission (W_SALE @ W_CREDIT) = None"
  "map_of wb_sale_and_commission (W_RETURN_FROM @ W_SALE @ W_CREDIT) = None"
  "map_of wb_sale_and_commission W_COMMISSION =
     Some [example_header, [CStr [49], CStr [65], CStr [88], CInt 10]]"
  "map_of wb_sale_and_commission (W_COMMISSION @ W_CREDIT) = None"
  "map_of wb_sale_and_commission (W_RETURN_FROM @ W_COMMISSION) = None"
  "map_of wb_sale_and_commission (W_RETURN_FROM @ W_COMMISSION @ W_CREDIT) = None"
  "map_of wb_sale_and_commission W_SHIPPING = None"
  "map_of wb_sale_and_commission (W_SHIPPING @ W_CREDIT) = None"
  "map_of wb_sale_and_commission (W_RETURN_FROM @ W_SHIPPING) = None"
  "map_of wb_sale_and_commission (W_RETURN_FROM @ W_SHIPPING @ W_CREDIT) = None"
  "map_of wb_sale_and_commission W_PROCESSING = None"
  "map_of wb_sale_and_commission (W_PROCESSING @ W_CREDIT) = None"
  "map_of wb_sale_and_commission (W_RETURN_FROM @ W_PROCESSING) = None"
  "map_of wb_sale_and_commission (W_RETURN_FROM @ W_PROCESSING @ W_CREDIT) = None"
  "map_of wb_sale_and_commission W_PLATFORM_DEV = None"
  "map_of wb_sale_and_commission (W_RETURN_FROM @ W_PLATFORM_DEV) = None"
  "map_of wb_sale_and_commission W_CUSTOMER_RETURN_COST = None"
  by (simp_all add: wb_sale_and_commission_def word_defs)

lemma wb_cost_only_sheets:
  "map_of wb_cost_only W_SALE = None"
  "map_of wb_cost_only (W_RETURN_FROM @ W_SALE) = None"
  "map_of wb_cost_only (W_SALE @ W_CREDIT) = None"
  "map_of wb_cost_only (W_RETURN_FROM @ W_SALE @ W_CREDIT) = None"
  "map_of wb_cost_only W_COMMISSION =
     Some [example_header, [CStr [49], CStr [65], CStr [88], CInt 10]]"
  "map_of wb_cost_only (W_COMMISSION @ W_CREDIT) = None"
  "map_of wb_cost_only (W_RETURN_FROM @ W_COMMISSION) = None"
  "map_of wb_cost_only (W_RETURN_FROM @ W_COMMISSION @ W_CREDIT) = None"
  "map_of wb_cost_only W_SHIPPING = None"
  "map_of wb_cost_only (W_SHIPPING @ W_CREDIT) = None"
  "map_of wb_cost_only (W_RETURN_FROM @ W_SHIPPING) = None"
  "map_of wb_cost_only (W_RETURN_FROM @ W_SHIPPING @ W_CREDIT) = None"
  "map_of wb_cost_only W_PROCESSING = None"
  "map_of wb_cost_only (W_PROCESSING @ W_CREDIT) = None"
  "map_of wb_cost_only (W_RETURN_FROM @ W_PROCESSING) = None"
  "map_of wb_cost_only (W_RETURN_FROM @ W_PROCESSING @ W_CREDIT) = None"
  "map_of wb_cost_only W_PLATFORM_DEV = None"
  "map_of wb_cost_only (W_RETURN_FROM @ W_PLATFORM_DEV) = None"
  "map_of wb_cost_only W_CUSTOMER_RETURN_COST = None"
  by (simp_all add: wb_cost_only_def word_defs)

lemma wb_infinite_amount_sheets:
  "map_of wb_infinite_amount W_SALE =
     Some [example_header, [CStr [49], CStr [65], CStr [88], CFloat PosInf]]"
  "map_of wb_infinite_amount (W_RETURN_FROM @ W_SALE) = None"
  "map_of wb_infinite_amount (W_SALE @ W_CREDIT) = None"
  "map_of wb_infinite_amount (W_RETURN_FROM @ W_SALE @ W_CREDIT) = None"
  "map_of wb_infinite_amount W_COMMISSION = None"
  "map_of wb_infinite_amount (W_COMMISSION @ W_CREDIT) = None"
  "map_of wb_infinite_amount (W_RETURN_FROM @ W_COMMISSION) = None"
  "map_of wb_infinite_amount (W_RETURN_FROM @ W_COMMISSION @ W_CREDIT) = None"
  "map_of wb_infinite_amount W_SHIPPING = None"
  "map_of wb_infinite_amount (W_SHIPPING @ W_CREDIT) = None"
  "map_of wb_infinite_amount (W_RETURN_FROM @ W_SHIPPING) = None"
  "map_of wb_infinite_amount (W_RETURN_FROM @ W_SHIPPING @ W_CREDIT) = None"
  "map_of wb_infinite_amount W_PROCESSING = None"
  "map_of wb_infinite_amount (W_PROCESSING @ W_CREDIT) = None"
  "map_of wb_infinite_amount (W_RETURN_FROM @ W_PROCESSING) = None"
  "map_of wb_infinite_amount (W_RETURN_FROM @ W_PROCESSING @ W_CREDIT) = None"
  "map_of wb_infinite_amount W_PLATFORM_DEV = None"
  "map_of wb_infinite_amount (W_RETURN_FROM @ W_PLATFORM_DEV) = None"
  "map_of wb_infinite_amount W_CUSTOMER_RETURN_COST = None"
  by (simp_all add: wb_infinite_amount_def word_defs)

lemma contributions_partial_return:
  assumes "env_lower e = ascii_lower"
  shows "all_contributions e wb_partial_return sheet_calls =
     Inr [\<lparr>c_key = (''cash'', [49], [65]), c_title = [88], c_return = False,
           c_target = SaleAmount, c_amount = 100\<rparr>,
          \<lparr>c_key = (''cash'', [49], [65]), c_title = [89], c_return = True,
           c_target = SaleAmount, c_amount = - 30\<rparr>]"
  unfolding sheet_calls_def
  by (simp add: example_sales_sheet [OF assms] example_cost_sheet [OF assms] absent_sheet
      wb_partial_return_sheets sales_contribution_def cost_contribution_def cell_at_def
      normalize_number_impl_def py_str_CStr)

lemma rows_partial_return:
  assumes "env_lower e = ascii_lower"
  shows "map_sum id fst (run_calls e wb_partial_return sheet_calls) =
     Inr [\<lparr>pr_sale_type = ''cash'', pr_order_id = [49], pr_dkpc = [65], pr_title = [88],
           pr_sale_amount = 70, pr_is_return = False, pr_commission_amount = 0,
           pr_shipping_fee = 0, pr_processing_fee = 0, pr_platform_dev_revenue = 0\<rparr>]"
  unfolding rows_of_contributions [OF contributions_partial_return [OF assms]]
  by (simp add: apply_contribution_def rows_map_get_def update_row_def new_parsed_row_def
      key_of_def add_amount_def add_cost_def)

lemma contributions_sale_and_commission:
  assumes "env_lower e = ascii_lower"
  shows "all_contributions e wb_sale_and_commission sheet_calls =
     Inr [\<lparr>c_key = (''cash'', [49], [65]), c_title = [88], c_return = False,
           c_target = SaleAmount, c_amount = 100\<rparr>,
          \<lparr>c_key = (''cash'', [49], [65]), c_title = [], c_return = False,
           c_target = CostOf ''commission'', c_amount = 10\<rparr>]"
  unfolding sheet_calls_def
  by (simp add: example_sales_sheet [OF assms] example_cost_sheet [OF assms] absent_sheet
      wb_sale_and_commission_sheets sales_contribution_def cost_contribution_def cell_at_def
      normalize_number_impl_def py_str_CStr)

lemma rows_sale_and_commission:
  assumes "env_lower e = ascii_lower"
  shows "map_sum id fst (run_calls e wb_sale_and_commission sheet_calls) =
     Inr [\<lparr>pr_sale_type = ''cash'', pr_order_id = [49], pr_dkpc = [65], pr_title = [88],
           pr_sale_amount = 100, pr_is_return = False, pr_commission_amount = 10,
           pr_shipping_fee = 0, pr_processing_fee = 0, pr_platform_dev_revenue = 0\<rparr>]"
  unfolding rows_of_contributions [OF contributions_sale_and_commission [OF assms]]
  by (simp add: apply_contribution_def rows_map_get_def update_row_def new_parsed_row_def
      key_of_def add_amount_def add_cost_def)

lemma contributions_cost_first:
  assumes "env_lower e = ascii_lower"
  shows "all_contributions e wb_sale_and_commission cost_first_calls =
     Inr [\<lparr>c_key = (''cash'', [49], [65]), c_title = [], c_return = False,
           c_target = CostOf ''commission'', c_amount = 10\<rparr>,
          \<lparr>c_key = (''cash'', [49], [65]), c_title = [88], c_return = False,
           c_target = SaleAmount, c_amount = 100\<rparr>]"
  unfolding cost_first_calls_def
  by (simp add: example_sales_sheet [OF assms] example_cost_sheet [OF assms] absent_sheet
      wb_sale_and_commission_sheets sales_contribution_def cost_contribution_def cell_at_def
      normalize_number_impl_def py_str_CStr)

lemma rows_cost_first:
  assumes "env_lower e = ascii_lower"
  shows "map_sum id fst (run_calls e wb_sale_and_commission cost_first_calls) =
     Inr [\<lparr>pr_sale_type = ''cash'', pr_order_id = [49], pr_dkpc = [65], pr_title = [],
           pr_sale_amount = 100, pr_is_return = False, pr_commission_amount = 10,
           pr_shipping_fee = 0, pr_processing_fee = 0, pr_platform_dev_revenue = 0\<rparr>]"
  unfolding rows_of_contributions [OF contributions_cost_first [OF assms]]
  by (simp add: apply_contribution_def rows_map_get_def update_row_def new_parsed_row_def
      key_of_def add_amount_def add_cost_def)

lemma contributions_cost_only:
  assumes "env_lower e = ascii_lower"
  shows "all_contributions e wb_cost_only sheet_calls =
     Inr [\<lparr>c_key = (''cash'', [49], [65]), c_title = [], c_return = False,
           c_target = CostOf ''commission'', c_amount = 10\<rparr>]"
  unfolding sheet_calls_def
  by (simp add: example_sales_sheet [OF assms] example_cost_sheet [OF assms] absent_sheet
      wb_cost_only_sheets sales_contribution_def cost_contribution_def cell_at_def
      normalize_number_impl_def py_str_CStr)

lemma rows_cost_only:
  assumes "env_lower e = ascii_lower"
  shows "map_sum id fst (run_calls e wb_cost_only sheet_calls) =
     Inr [\<lparr>pr_sale_type = ''cash'', pr_order_id = [49], pr_dkpc = [65], pr_title = [],
           pr_sale_amount = 0, pr_is_return = False, pr_commission_amount = 10,
           pr_shipping_fee = 0, pr_processing_fee = 0, pr_platform_dev_revenue = 0\<rparr>]"
  unfolding rows_of_contributions [OF contributions_cost_only [OF assms]]
  by (simp add: apply_contribution_def rows_map_get_def update_row_def new_parsed_row_def
      key_of_def add_amount_def add_cost_def)

lemma contributions_infinite_amount:
  assumes "env_lower e = ascii_lower"
  shows "all_contributions e wb_infinite_amount sheet_calls = Inl OverflowError"
  unfolding sheet_calls_def
  by (simp add: example_sales_sheet [OF assms] wb_infinite_amount_sheets
      sales_contribution_def cell_at_def normalize_number_impl_def)

lemma run_calls_infinite_amount:
  assumes "env_lower e = ascii_lower"
  shows "run_calls e wb_infinite_amount sheet_calls = Inl OverflowError"
  using run_calls_contributions [of e wb_infinite_amount sheet_calls]
  by (simp add: contributions_infinite_amount [OF assms])

lemma env_lowers:
  "env_lower plain_env = ascii_lower" "env_lower refusing_env = ascii_lower"
  by (simp_all add: plain_env_def refusing_env_def)

section \<open>Properties of the ledger merger\<close>

lemma parse_is_run_calls:
  "parse_invoice_excel e (Inr wb) = run_calls e wb sheet_calls"
  by (simp add: parse_invoice_excel_def)

lemma map_sum_rows:
  "map_sum id fst x = Inr prs \<Longrightarrow> map_sum id (f \<circ> fst) x = Inr (f prs)"
  by (cases x) auto

text \<open>
  The return flag of a line is the flag of the contribution that created it: a row of
  a return sheet sets it only when no line with its identity exists yet, and nothing
  clears it afterwards.
\<close>

lemma return_flag_is_first_contribution:
  assumes "map_sum id fst (run_calls e wb calls) = Inr prs" and "pr \<in> set prs"
  shows "pr_is_return pr =
     (case find (\<lambda>c. c_key c = key_of pr) (contributions_of e wb calls) of
        None \<Rightarrow> False
      | Some c \<Rightarrow> c_return c)"
proof -
  let ?cs = "contributions_of e wb calls"
  from run_calls_rows [OF assms(1)] have prs: "prs = fold apply_contribution ?cs []" by simp
  have "distinct (map key_of prs)" unfolding prs by (rule distinct_fold) simp
  from rows_map_get_member [OF this assms(2)]
  have "map_option pr_is_return (rows_map_get (fold apply_contribution ?cs []) (key_of pr)) =
          Some (pr_is_return pr)"
    by (simp add: prs)
  then show ?thesis
    by (auto simp: is_return_fold rows_map_get_Nil split: option.splits)
qed

text \<open>
  Claim C1: after a row of a return sheet is processed, the ledger line of its identity
  has \<^verbatim>\<open>is_return\<close> true, whether or not the line existed before, and the flag stays
  true. The flag does stay once set, but the return row does not set it on a line that
  exists: \<^verbatim>\<open>_read_sales_sheet\<close> computes the flag and hands it to
  \<^verbatim>\<open>get_or_create\<close>, which uses it only for a new row. With a sale of 100 and then a
  return of 30 for the same order and variant, the line ends with \<^verbatim>\<open>is_return\<close> false
  and a sale amount of 70, and is stored as a sale of 70.
\<close>

theorem return_row_leaves_flag_unset:
  "map_sum id fst (parse_invoice_excel plain_env (Inr wb_partial_return)) =
     Inr [\<lparr>pr_sale_type = ''cash'', pr_order_id = [49], pr_dkpc = [65], pr_title = [88],
       pr_sale_amount = 70, pr_is_return = False, pr_commission_amount = 0,
       pr_shipping_fee = 0, pr_processing_fee = 0, pr_platform_dev_revenue = 0\<rparr>] \<and>
   \<not> row_is_return (finalize_row
      \<lparr>pr_sale_type = ''cash'', pr_order_id = [49], pr_dkpc = [65], pr_title = [88],
       pr_sale_amount = 70, pr_is_return = False, pr_commission_amount = 0,
       pr_shipping_fee = 0, pr_processing_fee = 0, pr_platform_dev_revenue = 0\<rparr>) \<and>
   row_sale_amount (finalize_row
      \<lparr>pr_sale_type = ''cash'', pr_order_id = [49], pr_dkpc = [65], pr_title = [88],
       pr_sale_amount = 70, pr_is_return = False, pr_commission_amount = 0,
       pr_shipping_fee = 0, pr_processing_fee = 0, pr_platform_dev_revenue = 0\<rparr>) = 70"
  by (simp add: parse_is_run_calls rows_partial_return [OF env_lowers(1)] finalize_row_def)

text \<open>
  Claim C4, as stated: the stored title of a line is the last non-empty title among the
  contributions carrying its identity. In the workbook with a sale titled \<^verbatim>\<open>"X"\<close> and
  a later return titled \<^verbatim>\<open>"Y"\<close> for the same identity, the line keeps \<^verbatim>\<open>"X"\<close> (88)
  while the last non-empty title is \<^verbatim>\<open>"Y"\<close> (89).
\<close>

theorem title_not_last_non_empty_counterexample:
  "map_sum id (map pr_title \<circ> fst) (parse_invoice_excel plain_env (Inr wb_partial_return)) =
     Inr [[88]] \<and>
   last_non_empty_title (contributions_of plain_env wb_partial_return sheet_calls)
     (''cash'', [49], [65]) = [89]"
  using map_sum_rows [OF rows_partial_return [OF env_lowers(1)], of "map pr_title"]
  by (simp add: parse_is_run_calls contributions_of_def
      contributions_partial_return [OF env_lowers(1)] last_non_empty_title_def)

text \<open>
  Claim C4, amended: for every ledger line, the title is fixed when the line is created;
  it is the title of the first contribution, in processing order, that carries the
  line's identity (the text of the title cell of a sales or return row, empty when the
  cell is empty or the sheet has no title column, and empty for a row of a cost sheet).
  Later contributions never change it. This holds for every sequence of sheet calls, in
  particular for the one of \<^verbatim>\<open>parse_invoice_excel\<close>.
\<close>

theorem title_is_first_contribution:
  assumes "map_sum id fst (run_calls e wb calls) = Inr prs" and "pr \<in> set prs"
  shows "pr_title pr = first_title (contributions_of e wb calls) (key_of pr)"
proof -
  let ?cs = "contributions_of e wb calls"
  from run_calls_rows [OF assms(1)] have prs: "prs = fold apply_contribution ?cs []" by simp
  have "distinct (map key_of prs)" unfolding prs by (rule distinct_fold) simp
  from rows_map_get_member [OF this assms(2)]
  have "map_option pr_title (rows_map_get (fold apply_contribution ?cs []) (key_of pr)) =
          Some (pr_title pr)"
    by (simp add: prs)
  then show ?thesis
    by (auto simp: title_fold first_title_def rows_map_get_Nil split: option.splits)
qed

theorem title_is_first_contribution_witness:
  "map_sum id fst (run_calls plain_env wb_partial_return sheet_calls) =
     Inr [\<lparr>pr_sale_type = ''cash'', pr_order_id = [49], pr_dkpc = [65], pr_title = [88],
       pr_sale_amount = 70, pr_is_return = False, pr_commission_amount = 0,
       pr_shipping_fee = 0, pr_processing_fee = 0, pr_platform_dev_revenue = 0\<rparr>] \<and>
   \<lparr>pr_sale_type = ''cash'', pr_order_id = [49], pr_dkpc = [65], pr_title = [88],
       pr_sale_amount = 70, pr_is_return = False, pr_commission_amount = 0,
       pr_shipping_fee = 0, pr_processing_fee = 0, pr_platform_dev_revenue = 0\<rparr> \<in> set [\<lparr>pr_sale_type = ''cash'', pr_order_id = [49], pr_dkpc = [65], pr_title = [88],
       pr_sale_amount = 70, pr_is_return = False, pr_commission_amount = 0,
       pr_shipping_fee = 0, pr_processing_fee = 0, pr_platform_dev_revenue = 0\<rparr>] \<and>
   pr_title \<lparr>pr_sale_type = ''cash'', pr_order_id = [49], pr_dkpc = [65], pr_title = [88],
       pr_sale_amount = 70, pr_is_return = False, pr_commission_amount = 0,
       pr_shipping_fee = 0, pr_processing_fee = 0, pr_platform_dev_revenue = 0\<rparr> =
     first_title (contributions_of plain_env wb_partial_return sheet_calls)
       (key_of \<lparr>pr_sale_type = ''cash'', pr_order_id = [49], pr_dkpc = [65], pr_title = [88],
       pr_sale_amount = 70, pr_is_return = False, pr_commission_amount = 0,
       pr_shipping_fee = 0, pr_processing_fee = 0, pr_platform_dev_revenue = 0\<rparr>)"
  using title_is_first_contribution [OF rows_partial_return [OF env_lowers(1)],
      of "\<lparr>pr_sale_type = ''cash'', pr_order_id = [49], pr_dkpc = [65], pr_title = [88],
       pr_sale_amount = 70, pr_is_return = False, pr_commission_amount = 0,
       pr_shipping_fee = 0, pr_processing_fee = 0, pr_platform_dev_revenue = 0\<rparr>"]
    rows_partial_return [OF env_lowers(1)]
  by simp

text \<open>
  Claim C5, as stated: processing the sheets in any permutation of the fixed sequence
  yields identical final values of every ledger line. With a sale and a commission for
  the same identity, reading the commission sheet before the sales sheet creates the
  line with an empty title, which the sale then keeps; in the order of the program the
  stored title is \<^verbatim>\<open>"X"\<close>.
\<close>

theorem order_changes_title_counterexample:
  "mset cost_first_calls = mset sheet_calls \<and>
   map_sum id (map finalize_row \<circ> fst)
     (run_calls plain_env wb_sale_and_commission sheet_calls) =
     Inr [\<lparr>row_sale_type = ''cash'', row_order_id = [49], row_dkpc = [65], row_title = [88],
       row_sale_amount = 100, row_purchase_price = 0, row_commission_amount = 10,
       row_shipping_fee = 0, row_processing_fee = 0, row_platform_dev_revenue = 0,
       row_tax_amount = 1, row_profit = 0, row_is_return = False\<rparr>] \<and>
   map_sum id (map finalize_row \<circ> fst)
     (run_calls plain_env wb_sale_and_commission cost_first_calls) =
     Inr [\<lparr>row_sale_type = ''cash'', row_order_id = [49], row_dkpc = [65], row_title = [],
       row_sale_amount = 100, row_purchase_price = 0, row_commission_amount = 10,
       row_shipping_fee = 0, row_processing_fee = 0, row_platform_dev_revenue = 0,
       row_tax_amount = 1, row_profit = 0, row_is_return = False\<rparr>]"
  using map_sum_rows [OF rows_sale_and_commission [OF env_lowers(1)], of "map finalize_row"]
    map_sum_rows [OF rows_cost_first [OF env_lowers(1)], of "map finalize_row"]
  by (simp add: finalize_row_def) (simp add: cost_first_calls_def sheet_calls_def)

text \<open>
  Claim C5, amended: for every workbook and every permutation of a sequence of sheet
  calls, the run fails for the one order exactly when it fails for the other, and when
  both succeed every identity has a line in both ledgers or in neither, with identical
  accumulated sale, commission, shipping, processing and platform development amounts.
  The title of a line depends on the order; nothing is said here about the return flag
  and the finalized values that depend on it.
\<close>

theorem accumulated_amounts_order_independent:
  assumes "mset calls' = mset calls"
  shows "(isl (run_calls e wb calls') \<longleftrightarrow> isl (run_calls e wb calls)) \<and>
         (\<forall>prs prs'. map_sum id fst (run_calls e wb calls) = Inr prs \<longrightarrow>
            map_sum id fst (run_calls e wb calls') = Inr prs' \<longrightarrow> totals prs' = totals prs)"
proof (intro conjI allI impI)
  from assms have "set calls' = set calls" by (rule mset_eq_setD)
  then show "isl (run_calls e wb calls') \<longleftrightarrow> isl (run_calls e wb calls)"
    by (simp add: run_calls_isl all_contributions_isl)
next
  fix prs prs'
  assume a: "map_sum id fst (run_calls e wb calls) = Inr prs"
     and b: "map_sum id fst (run_calls e wb calls') = Inr prs'"
  let ?cs = "contributions_of e wb calls" and ?cs' = "contributions_of e wb calls'"
  from run_calls_rows [OF a] have 1: "all_contributions e wb calls = Inr ?cs"
    and p: "prs = fold apply_contribution ?cs []" by simp_all
  from run_calls_rows [OF b] have 2: "all_contributions e wb calls' = Inr ?cs'"
    and p': "prs' = fold apply_contribution ?cs' []" by simp_all
  have "mset ?cs' = mset ?cs"
    unfolding all_contributions_concat [OF 1] all_contributions_concat [OF 2] mset_concat
    by (simp add: sum_list_mset_perm [OF assms])
  then have "fold add_totals ?cs' = fold add_totals ?cs" by (rule fold_add_totals_perm)
  then show "totals prs' = totals prs" by (simp add: p p' totals_fold)
qed

theorem accumulated_amounts_order_independent_witness:
  "mset cost_first_calls = mset sheet_calls \<and>
   (isl (run_calls plain_env wb_sale_and_commission cost_first_calls) \<longleftrightarrow>
    isl (run_calls plain_env wb_sale_and_commission sheet_calls)) \<and>
   map_sum id fst (run_calls plain_env wb_sale_and_commission sheet_calls) =
     Inr [\<lparr>pr_sale_type = ''cash'', pr_order_id = [49], pr_dkpc = [65], pr_title = [88],
       pr_sale_amount = 100, pr_is_return = False, pr_commission_amount = 10,
       pr_shipping_fee = 0, pr_processing_fee = 0, pr_platform_dev_revenue = 0\<rparr>] \<and>
   map_sum id fst (run_calls plain_env wb_sale_and_commission cost_first_calls) =
     Inr [\<lparr>pr_sale_type = ''cash'', pr_order_id = [49], pr_dkpc = [65], pr_title = [],
       pr_sale_amount = 100, pr_is_return = False, pr_commission_amount = 10,
       pr_shipping_fee = 0, pr_processing_fee = 0, pr_platform_dev_revenue = 0\<rparr>] \<and>
   totals [\<lparr>pr_sale_type = ''cash'', pr_order_id = [49], pr_dkpc = [65], pr_title = [],
       pr_sale_amount = 100, pr_is_return = False, pr_commission_amount = 10,
       pr_shipping_fee = 0, pr_processing_fee = 0, pr_platform_dev_revenue = 0\<rparr>] =
   totals [\<lparr>pr_sale_type = ''cash'', pr_order_id = [49], pr_dkpc = [65], pr_title = [88],
       pr_sale_amount = 100, pr_is_return = False, pr_commission_amount = 10,
       pr_shipping_fee = 0, pr_processing_fee = 0, pr_platform_dev_revenue = 0\<rparr>]"
proof -
  have m: "mset cost_first_calls = mset sheet_calls"
    by (simp add: cost_first_calls_def sheet_calls_def)
  from accumulated_amounts_order_independent [OF m, of plain_env wb_sale_and_commission]
    rows_sale_and_commission [OF env_lowers(1)] rows_cost_first [OF env_lowers(1)] m
  show ?thesis by blast
qed

text \<open>
  Claim C10: an identity that receives contributions from cost sheets only keeps a sale
  amount of 0 in the merger, so finalization stores it as a return with every monetary
  field 0, the cost amounts included.
\<close>

theorem cost_only_line_stored_as_zero_return:
  assumes "map_sum id fst (run_calls e wb calls) = Inr prs" and "pr \<in> set prs"
      and "\<forall>c\<in>set (contributions_of e wb calls). c_key c = key_of pr \<longrightarrow> c_target c \<noteq> SaleAmount"
  shows "pr_sale_amount pr = 0 \<and> row_is_return (finalize_row pr) \<and>
         row_sale_amount (finalize_row pr) = 0 \<and> row_commission_amount (finalize_row pr) = 0 \<and>
         row_shipping_fee (finalize_row pr) = 0 \<and> row_processing_fee (finalize_row pr) = 0 \<and>
         row_platform_dev_revenue (finalize_row pr) = 0 \<and> row_tax_amount (finalize_row pr) = 0"
proof -
  let ?cs = "contributions_of e wb calls"
  from run_calls_rows [OF assms(1)] have prs: "prs = fold apply_contribution ?cs []" by simp
  have "distinct (map key_of prs)" unfolding prs by (rule distinct_fold) simp
  from rows_map_get_member [OF this assms(2)]
  have "totals prs (key_of pr) = Some (amounts_of pr)" by (simp add: totals_def)
  then have "sale_of (fold add_totals ?cs (totals []) (key_of pr)) = pr_sale_amount pr"
    by (simp add: prs totals_fold sale_of_def amounts_of_def)
  moreover have "sale_of (fold add_totals ?cs (totals []) (key_of pr)) = sale_of (totals [] (key_of pr))"
    by (rule sale_of_fold) (rule assms(3))
  ultimately have "pr_sale_amount pr = 0"
    by (simp add: sale_of_def totals_def rows_map_get_Nil)
  then show ?thesis by (simp add: finalize_row_def)
qed

theorem cost_only_line_stored_as_zero_return_witness:
  "map_sum id fst (run_calls plain_env wb_cost_only sheet_calls) =
     Inr [\<lparr>pr_sale_type = ''cash'', pr_order_id = [49], pr_dkpc = [65], pr_title = [],
       pr_sale_amount = 0, pr_is_return = False, pr_commission_amount = 10,
       pr_shipping_fee = 0, pr_processing_fee = 0, pr_platform_dev_revenue = 0\<rparr>] \<and>
   \<lparr>pr_sale_type = ''cash'', pr_order_id = [49], pr_dkpc = [65], pr_title = [],
       pr_sale_amount = 0, pr_is_return = False, pr_commission_amount = 10,
       pr_shipping_fee = 0, pr_processing_fee = 0, pr_platform_dev_revenue = 0\<rparr> \<in> set [\<lparr>pr_sale_type = ''cash'', pr_order_id = [49], pr_dkpc = [65], pr_title = [],
       pr_sale_amount = 0, pr_is_return = False, pr_commission_amount = 10,
       pr_shipping_fee = 0, pr_processing_fee = 0, pr_platform_dev_revenue = 0\<rparr>] \<and>
   contributions_of plain_env wb_cost_only sheet_calls =
     [\<lparr>c_key = (''cash'', [49], [65]), c_title = [], c_return = False,
       c_target = CostOf ''commission'', c_amount = 10\<rparr>] \<and>
   pr_sale_amount \<lparr>pr_sale_type = ''cash'', pr_order_id = [49], pr_dkpc = [65], pr_title = [],
       pr_sale_amount = 0, pr_is_return = False, pr_commission_amount = 10,
       pr_shipping_fee = 0, pr_processing_fee = 0, pr_platform_dev_revenue = 0\<rparr> = 0 \<and>
   row_is_return (finalize_row 
      \<lparr>pr_sale_type = ''cash'', pr_order_id = [49], pr_dkpc = [65], pr_title = [],
          pr_sale_amount = 0, pr_is_return = False, pr_commission_amount = 10,
          pr_shipping_fee = 0, pr_processing_fee = 0, pr_platform_dev_revenue = 0\<rparr>) \<and>
   row_sale_amount (finalize_row 
      \<lparr>pr_sale_type = ''cash'', pr_order_id = [49], pr_dkpc = [65], pr_title = [],
          pr_sale_amount = 0, pr_is_return = False, pr_commission_amount = 10,
          pr_shipping_fee = 0, pr_processing_fee = 0, pr_platform_dev_revenue = 0\<rparr>) = 0 \<and>
   row_commission_amount (finalize_row 
      \<lparr>pr_sale_type = ''cash'', pr_order_id = [49], pr_dkpc = [65], pr_title = [],
          pr_sale_amount = 0, pr_is_return = False, pr_commission_amount = 10,
          pr_shipping_fee = 0, pr_processing_fee = 0, pr_platform_dev_revenue = 0\<rparr>) = 0 \<and>
   row_shipping_fee (finalize_row 
      \<lparr>pr_sale_type = ''cash'', pr_order_id = [49], pr_dkpc = [65], pr_title = [],
          pr_sale_amount = 0, pr_is_return = False, pr_commission_amount = 10,
          pr_shipping_fee = 0, pr_processing_fee = 0, pr_platform_dev_revenue = 0\<rparr>) = 0 \<and>
   row_processing_fee (finalize_row 
      \<lparr>pr_sale_type = ''cash'', pr_order_id = [49], pr_dkpc = [65], pr_title = [],
          pr_sale_amount = 0, pr_is_return = False, pr_commission_amount = 10,
          pr_shipping_fee = 0, pr_processing_fee = 0, pr_platform_dev_revenue = 0\<rparr>) = 0 \<and>
   row_platform_dev_revenue (finalize_row 
      \<lparr>pr_sale_type = ''cash'', pr_order_id = [49], pr_dkpc = [65], pr_title = [],
          pr_sale_amount = 0, pr_is_return = False, pr_commission_amount = 10,
          pr_shipping_fee = 0, pr_processing_fee = 0, pr_platform_dev_revenue = 0\<rparr>) = 0 \<and>
   row_tax_amount (finalize_row 
      \<lparr>pr_sale_type = ''cash'', pr_order_id = [49], pr_dkpc = [65], pr_title = [],
          pr_sale_amount = 0, pr_is_return = False, pr_commission_amount = 10,
          pr_shipping_fee = 0, pr_processing_fee = 0, pr_platform_dev_revenue = 0\<rparr>) = 0"
  using cost_only_line_stored_as_zero_return [OF rows_cost_only [OF env_lowers(1)],
      of "\<lparr>pr_sale_type = ''cash'', pr_order_id = [49], pr_dkpc = [65], pr_title = [],
       pr_sale_amount = 0, pr_is_return = False, pr_commission_amount = 10,
       pr_shipping_fee = 0, pr_processing_fee = 0, pr_platform_dev_revenue = 0\<rparr>"]
    rows_cost_only [OF env_lowers(1)]
  by (simp add: contributions_of_def contributions_cost_only [OF env_lowers(1)] key_of_def)

section \<open>Properties of finalization and of the processing run\<close>

lemma create_row_step_Inr:
  "create_row_step e pr (db, c) = Inr st \<Longrightarrow>
     st = (db\<lparr>invoice_rows := invoice_rows db @ [finalize_row pr]\<rparr>, c + 1)"
  by (auto simp: create_row_step_def Let_def split: option.splits)

lemma for_rows_create:
  "for_rows (create_row_step e) prs (db, c) = Inr (db', c') \<Longrightarrow>
     db' = db\<lparr>invoice_rows := invoice_rows db @ map finalize_row prs\<rparr> \<and>
     c' = c + int (length prs)"
proof (induction prs arbitrary: db c)
  case Nil
  then show ?case by simp
next
  case (Cons pr prs)
  from Cons.prems obtain st where
    st: "create_row_step e pr (db, c) = Inr st" and
    rest: "for_rows (create_row_step e) prs st = Inr (db', c')"
    by (auto split: sum.splits)
  from create_row_step_Inr [OF st] rest
  have "for_rows (create_row_step e) prs
          (db\<lparr>invoice_rows := invoice_rows db @ [finalize_row pr]\<rparr>, c + 1) = Inr (db', c')"
    by simp
  from Cons.IH [OF this] show ?case by simp
qed

lemma atomic_block_rows:
  "atomic_block e prs db = Inr db' \<Longrightarrow> invoice_rows db' = map finalize_row prs"
  by (auto simp: atomic_block_def Let_def split: sum.splits dest!: for_rows_create)

lemma for_rows_create_fails:
  "find (\<lambda>pr. env_create_error e (finalize_row pr) \<noteq> None) prs = Some pr \<Longrightarrow>
   env_create_error e (finalize_row pr) = Some err \<Longrightarrow>
   for_rows (create_row_step e) prs (db, c) = Inl err"
proof (induction prs arbitrary: db c)
  case Nil
  then show ?case by simp
next
  case (Cons p prs)
  show ?case
  proof (cases "env_create_error e (finalize_row p)")
    case None
    with Cons.prems have "find (\<lambda>pr. env_create_error e (finalize_row pr) \<noteq> None) prs = Some pr"
      by simp
    from Cons.IH [OF this Cons.prems(2)] None show ?thesis
      by (simp add: create_row_step_def)
  next
    case (Some err')
    with Cons.prems have "p = pr" by simp
    with Some Cons.prems(2) show ?thesis by (simp add: create_row_step_def)
  qed
qed

lemma finalize_row_return:
  "pr_sale_amount pr \<le> 0 \<Longrightarrow>
     row_is_return (finalize_row pr) \<and> row_sale_amount (finalize_row pr) = 0 \<and>
     row_commission_amount (finalize_row pr) = 0 \<and> row_shipping_fee (finalize_row pr) = 0 \<and>
     row_processing_fee (finalize_row pr) = 0 \<and> row_platform_dev_revenue (finalize_row pr) = 0 \<and>
     row_tax_amount (finalize_row pr) = 0"
  by (simp add: finalize_row_def)

lemma atomic_block_example:
  "atomic_block plain_env [example_sale_line, example_cancelled_line] example_store =
     Inr \<lparr>invoice_rows = [finalize_row example_sale_line, finalize_row example_cancelled_line],
          inv_status = STATUS_DONE, inv_error_message = [], inv_row_count = 2,
          inv_processing_price = 0, pricing_tiers = []\<rparr>"
  by (simp add: atomic_block_def create_row_step_def plain_env_def example_store_def
      calculate_price_for_row_count_def order_by_min_rows_def)

text \<open>
  Claim C2: a ledger line whose final sale amount is at most 0 is stored as a return
  with every monetary field 0, whatever its return flag was. The atomic block of
  \<^verbatim>\<open>process_invoice_file\<close> stores the finalized form of every line, in order.
\<close>

theorem nonpositive_sale_stored_as_return:
  assumes "atomic_block e parsed_rows db = Inr db'" and "pr \<in> set parsed_rows"
      and "pr_sale_amount pr \<le> 0"
  shows "invoice_rows db' = map finalize_row parsed_rows \<and>
         row_is_return (finalize_row pr) \<and> row_sale_amount (finalize_row pr) = 0 \<and>
         row_commission_amount (finalize_row pr) = 0 \<and>
         row_shipping_fee (finalize_row pr) = 0 \<and>
         row_processing_fee (finalize_row pr) = 0 \<and>
         row_platform_dev_revenue (finalize_row pr) = 0 \<and>
         row_tax_amount (finalize_row pr) = 0"
  using atomic_block_rows [OF assms(1)] finalize_row_return [OF assms(3)] by simp

theorem nonpositive_sale_stored_as_return_witness:
  "atomic_block plain_env [example_sale_line, example_cancelled_line] example_store =
     Inr \<lparr>invoice_rows = [finalize_row example_sale_line, finalize_row example_cancelled_line],
          inv_status = STATUS_DONE, inv_error_message = [], inv_row_count = 2,
          inv_processing_price = 0, pricing_tiers = []\<rparr> \<and>
   example_cancelled_line \<in> set [example_sale_line, example_cancelled_line] \<and>
   pr_sale_amount example_cancelled_line \<le> 0 \<and>
   pr_commission_amount example_cancelled_line = 100 \<and>
   row_is_return (finalize_row example_cancelled_line) \<and>
   row_sale_amount (finalize_row example_cancelled_line) = 0 \<and>
   row_commission_amount (finalize_row example_cancelled_line) = 0 \<and>
   row_tax_amount (finalize_row example_cancelled_line) = 0"
proof -
  have h: "example_cancelled_line \<in> set [example_sale_line, example_cancelled_line]"
    "pr_sale_amount example_cancelled_line \<le> 0"
    "pr_commission_amount example_cancelled_line = 100"
    by (simp_all add: example_cancelled_line_def)
  from nonpositive_sale_stored_as_return [OF atomic_block_example h(1) h(2)] h
    atomic_block_example
  show ?thesis by simp
qed

lemma recalc_row_tax:
  "row_tax_amount (recalc_row row) =
     (if row_is_return row \<or> row_purchase_price row \<le> 0 then 0
      else (row_commission_amount row + row_processing_fee row) div 10)"
  by (simp add: recalc_row_def Let_def)

lemma recalc_row_keeps:
  "row_is_return (recalc_row row) = row_is_return row"
  "row_purchase_price (recalc_row row) = row_purchase_price row"
  "row_commission_amount (recalc_row row) = row_commission_amount row"
  "row_processing_fee (recalc_row row) = row_processing_fee row"
  by (simp_all add: recalc_row_def Let_def)

lemma finalize_example_sale_line:
  "finalize_row example_sale_line =
     \<lparr>row_sale_type = ''cash'', row_order_id = [49], row_dkpc = [65], row_title = [88],
      row_sale_amount = 1000, row_purchase_price = 0, row_commission_amount = 100,
      row_shipping_fee = 0, row_processing_fee = 0, row_platform_dev_revenue = 0,
      row_tax_amount = 10, row_profit = 0, row_is_return = False\<rparr>"
  by (simp add: finalize_row_def example_sale_line_def)

text \<open>
  Claim C3, as stated: the stored tax of a non-return line equals
  \<^verbatim>\<open>(commission + processing) // 10\<close> at every point after finalization, also after
  profit recalculations with any purchase prices. A sale of 1000 with a commission of
  100 is stored with a tax of 10 and a purchase price of 0; recalculating then stores a
  tax of 0 for this non-return line, while its commission still is 100.
\<close>

theorem tax_zero_without_purchase_price_counterexample:
  "recalc_profit [finalize_row example_sale_line] =
     [\<lparr>row_sale_type = ''cash'', row_order_id = [49], row_dkpc = [65], row_title = [88],
       row_sale_amount = 1000, row_purchase_price = 0, row_commission_amount = 100,
       row_shipping_fee = 0, row_processing_fee = 0, row_platform_dev_revenue = 0,
       row_tax_amount = 0, row_profit = 0, row_is_return = False\<rparr>] \<and>
   \<not> row_is_return (hd (recalc_profit [finalize_row example_sale_line])) \<and>
   row_tax_amount (hd (recalc_profit [finalize_row example_sale_line])) \<noteq>
     (row_commission_amount (hd (recalc_profit [finalize_row example_sale_line]))
      + row_processing_fee (hd (recalc_profit [finalize_row example_sale_line]))) div 10"
  by (simp add: recalc_profit_def recalc_row_def finalize_example_sale_line)

text \<open>
  Claim C3, amended: for every non-return line, the tax stored by finalization equals
  \<^verbatim>\<open>(commission + processing) // 10\<close> over the stored commission and processing fee,
  which are not negative; and after a profit recalculation the stored tax of every
  non-return line equals \<^verbatim>\<open>(commission + processing) // 10\<close> when the line's purchase
  price is positive and 0 when it is not.
\<close>

theorem non_return_tax_after_finalize_and_recalc:
  "(\<not> row_is_return (finalize_row pr) \<longrightarrow>
      row_tax_amount (finalize_row pr) =
        (row_commission_amount (finalize_row pr) + row_processing_fee (finalize_row pr)) div 10 \<and>
      0 \<le> row_commission_amount (finalize_row pr) \<and>
      0 \<le> row_processing_fee (finalize_row pr)) \<and>
   (row \<in> set (recalc_profit rows) \<and> \<not> row_is_return row \<longrightarrow>
      row_tax_amount row =
        (if 0 < row_purchase_price row
         then (row_commission_amount row + row_processing_fee row) div 10 else 0))"
proof (intro conjI impI)
  assume "\<not> row_is_return (finalize_row pr)"
  then show "row_tax_amount (finalize_row pr) =
        (row_commission_amount (finalize_row pr) + row_processing_fee (finalize_row pr)) div 10"
    and "0 \<le> row_commission_amount (finalize_row pr)"
    and "0 \<le> row_processing_fee (finalize_row pr)"
    by (simp_all add: finalize_row_def Let_def split: if_splits)
next
  assume "row \<in> set (recalc_profit rows) \<and> \<not> row_is_return row"
  then obtain r where r: "r \<in> set rows" "row = recalc_row r" and nr: "\<not> row_is_return row"
    by (auto simp: recalc_profit_def)
  from nr show "row_tax_amount row =
        (if 0 < row_purchase_price row
         then (row_commission_amount row + row_processing_fee row) div 10 else 0)"
    unfolding r(2) by (simp add: recalc_row_tax recalc_row_keeps)
qed

theorem non_return_tax_after_finalize_and_recalc_witness:
  "\<not> row_is_return (finalize_row example_sale_line) \<and>
   row_tax_amount (finalize_row example_sale_line) = 10 \<and>
   row_commission_amount (finalize_row example_sale_line) = 100 \<and>
   recalc_row ((finalize_row example_sale_line)\<lparr>row_purchase_price := 5000\<rparr>)
     \<in> set (recalc_profit (update_purchase_price [65] 5000 [finalize_row example_sale_line])) \<and>
   \<not> row_is_return
       (recalc_row ((finalize_row example_sale_line)\<lparr>row_purchase_price := 5000\<rparr>)) \<and>
   row_purchase_price
       (recalc_row ((finalize_row example_sale_line)\<lparr>row_purchase_price := 5000\<rparr>)) = 5000 \<and>
   row_tax_amount
       (recalc_row ((finalize_row example_sale_line)\<lparr>row_purchase_price := 5000\<rparr>)) = 10"
  using non_return_tax_after_finalize_and_recalc
    [of example_sale_line
        "recalc_row ((finalize_row example_sale_line)\<lparr>row_purchase_price := 5000\<rparr>)"
        "update_purchase_price [65] 5000 [finalize_row example_sale_line]"]
  by (simp add: finalize_example_sale_line recalc_profit_def update_purchase_price_def
      recalc_row_def)

lemma process_failed:
  assumes "(case parse_invoice_excel e loaded of
              Inl err \<Rightarrow> Inl err
            | Inr parsed \<Rightarrow>
                (case atomic_block e (fst parsed)
                        (db0\<lparr>inv_status := STATUS_PROCESSING, inv_error_message := []\<rparr>) of
                   Inl err \<Rightarrow> Inl err
                 | Inr db2 \<Rightarrow> Inr (db2, snd parsed))) = Inl err"
  shows "run_failed db0 (process_invoice_file e loaded db0) err"
  using assms by (simp add: process_invoice_file_def run_failed_def Let_def)

text \<open>
  Claim C7: when the workbook cannot be opened, or the merge raises, or the store
  refuses a row, the invoice ends in the failed state with the text of the error, the
  run reports 0 lines, and the rows the invoice had before the run are unchanged.
\<close>

theorem failed_run_commits_nothing:
  "(loaded = Inl err \<longrightarrow> run_failed db0 (process_invoice_file e loaded db0) err) \<and>
   (loaded = Inr wb \<and> run_calls e wb sheet_calls = Inl err \<longrightarrow>
      run_failed db0 (process_invoice_file e loaded db0) err) \<and>
   (map_sum id fst (parse_invoice_excel e loaded) = Inr prs \<and>
    find (\<lambda>pr. env_create_error e (finalize_row pr) \<noteq> None) prs = Some pr \<and>
    env_create_error e (finalize_row pr) = Some err \<longrightarrow>
      run_failed db0 (process_invoice_file e loaded db0) err)"
proof (intro conjI impI)
  assume "loaded = Inl err"
  then show "run_failed db0 (process_invoice_file e loaded db0) err"
    by (intro process_failed) (simp add: parse_invoice_excel_def)
next
  assume "loaded = Inr wb \<and> run_calls e wb sheet_calls = Inl err"
  then show "run_failed db0 (process_invoice_file e loaded db0) err"
    by (intro process_failed) (simp add: parse_invoice_excel_def)
next
  assume a: "map_sum id fst (parse_invoice_excel e loaded) = Inr prs \<and>
    find (\<lambda>pr. env_create_error e (finalize_row pr) \<noteq> None) prs = Some pr \<and>
    env_create_error e (finalize_row pr) = Some err"
  then obtain lg where p: "parse_invoice_excel e loaded = Inr (prs, lg)"
    by (cases "parse_invoice_excel e loaded") auto
  from a have "atomic_block e prs
      (db0\<lparr>inv_status := STATUS_PROCESSING, inv_error_message := []\<rparr>) = Inl err"
    by (simp add: atomic_block_def for_rows_create_fails)
  with p show "run_failed db0 (process_invoice_file e loaded db0) err"
    by (intro process_failed) simp
qed

theorem failed_run_commits_nothing_witness:
  "run_failed example_store
     (process_invoice_file plain_env (Inl (LoadError [110, 111])) example_store)
     (LoadError [110, 111]) \<and>
   run_calls plain_env wb_infinite_amount sheet_calls = Inl OverflowError \<and>
   run_failed example_store
     (process_invoice_file plain_env (Inr wb_infinite_amount) example_store) OverflowError \<and>
   map_sum id fst (parse_invoice_excel refusing_env (Inr wb_partial_return)) =
     Inr [\<lparr>pr_sale_type = ''cash'', pr_order_id = [49], pr_dkpc = [65], pr_title = [88],
       pr_sale_amount = 70, pr_is_return = False, pr_commission_amount = 0,
       pr_shipping_fee = 0, pr_processing_fee = 0, pr_platform_dev_revenue = 0\<rparr>] \<and>
   find (\<lambda>pr. env_create_error refusing_env (finalize_row pr) \<noteq> None)
     [\<lparr>pr_sale_type = ''cash'', pr_order_id = [49], pr_dkpc = [65], pr_title = [88],
       pr_sale_amount = 70, pr_is_return = False, pr_commission_amount = 0,
       pr_shipping_fee = 0, pr_processing_fee = 0, pr_platform_dev_revenue = 0\<rparr>] =
     Some \<lparr>pr_sale_type = ''cash'', pr_order_id = [49], pr_dkpc = [65], pr_title = [88],
       pr_sale_amount = 70, pr_is_return = False, pr_commission_amount = 0,
       pr_shipping_fee = 0, pr_processing_fee = 0, pr_platform_dev_revenue = 0\<rparr> \<and>
   env_create_error refusing_env (finalize_row
      \<lparr>pr_sale_type = ''cash'', pr_order_id = [49], pr_dkpc = [65], pr_title = [88],
       pr_sale_amount = 70, pr_is_return = False, pr_commission_amount = 0,
       pr_shipping_fee = 0, pr_processing_fee = 0, pr_platform_dev_revenue = 0\<rparr>) = Some (StoreError [111, 117, 116]) \<and>
   run_failed example_store
     (process_invoice_file refusing_env (Inr wb_partial_return) example_store)
     (StoreError [111, 117, 116])"
proof -
  have r: "map_sum id fst (parse_invoice_excel refusing_env (Inr wb_partial_return)) =
     Inr [\<lparr>pr_sale_type = ''cash'', pr_order_id = [49], pr_dkpc = [65], pr_title = [88],
       pr_sale_amount = 70, pr_is_return = False, pr_commission_amount = 0,
       pr_shipping_fee = 0, pr_processing_fee = 0, pr_platform_dev_revenue = 0\<rparr>]"
    by (simp add: parse_is_run_calls rows_partial_return [OF env_lowers(2)])
  have f: "find (\<lambda>pr. env_create_error refusing_env (finalize_row pr) \<noteq> None)
     [\<lparr>pr_sale_type = ''cash'', pr_order_id = [49], pr_dkpc = [65], pr_title = [88],
       pr_sale_amount = 70, pr_is_return = False, pr_commission_amount = 0,
       pr_shipping_fee = 0, pr_processing_fee = 0, pr_platform_dev_revenue = 0\<rparr>] =
     Some \<lparr>pr_sale_type = ''cash'', pr_order_id = [49], pr_dkpc = [65], pr_title = [88],
       pr_sale_amount = 70, pr_is_return = False, pr_commission_amount = 0,
       pr_shipping_fee = 0, pr_processing_fee = 0, pr_platform_dev_revenue = 0\<rparr>"
    "env_create_error refusing_env (finalize_row
      \<lparr>pr_sale_type = ''cash'', pr_order_id = [49], pr_dkpc = [65], pr_title = [88],
       pr_sale_amount = 70, pr_is_return = False, pr_commission_amount = 0,
       pr_shipping_fee = 0, pr_processing_fee = 0, pr_platform_dev_revenue = 0\<rparr>) = Some (StoreError [111, 117, 116])"
    by (simp_all add: refusing_env_def)
  from failed_run_commits_nothing
         [of "Inl (LoadError [110, 111])" "LoadError [110, 111]" example_store plain_env]
    failed_run_commits_nothing
         [of "Inr wb_infinite_amount" OverflowError example_store plain_env
             wb_infinite_amount]
    failed_run_commits_nothing
         [of "Inr wb_partial_return" "StoreError [111, 117, 116]" example_store refusing_env
             _ "[\<lparr>pr_sale_type = ''cash'', pr_order_id = [49], pr_dkpc = [65], pr_title = [88],
       pr_sale_amount = 70, pr_is_return = False, pr_commission_amount = 0,
       pr_shipping_fee = 0, pr_processing_fee = 0, pr_platform_dev_revenue = 0\<rparr>]"
             "\<lparr>pr_sale_type = ''cash'', pr_order_id = [49], pr_dkpc = [65], pr_title = [88],
       pr_sale_amount = 70, pr_is_return = False, pr_commission_amount = 0,
       pr_shipping_fee = 0, pr_processing_fee = 0, pr_platform_dev_revenue = 0\<rparr>"]
    run_calls_infinite_amount [OF env_lowers(1)] r f
  show ?thesis by simp
qed

end
